theory Spec2Isabelle
  imports Complex_Main
begin

section \<open>In-silico perturbation of gene count matrices\<close>

text \<open>
  The notebook \<^verbatim>\<open>notebooks/step1_insilico_perturbation.ipynb\<close> defines two functions:
  \<^verbatim>\<open>simulate_count_data\<close>, which builds a random count matrix inside an AnnData object,
  and \<^verbatim>\<open>perturb_genes_counts\<close>, which copies an AnnData object and rescales and re-noises
  the columns of the target genes. Both are embedded below.

  Conventions of the embedding:
  \<^item> Python exceptions are values of the type \<open>error\<close>; a function that may raise returns
    \<open>error + 'a\<close> together with the world it leaves behind.
  \<^item> numpy arrays and pandas data frames are mutable objects; they live in a store
    (\<open>arrays\<close>, \<open>frames\<close>) and an AnnData object holds their addresses.
  \<^item> a Python float is a binary64 number (\<open>float64\<close>): every arithmetic operation rounds
    to the nearest representable number, ties to even.
  \<^item> an integer array has one of the eight integer dtypes of numpy; its entries are
    integers in the range of the dtype, and a cast into a dtype wraps around.
  \<^item> the process-wide random generator of numpy is a tape of raw draws (\<open>tape\<close>) with a
    read position (\<open>rng_pos\<close>), and the Poisson sampler turns a raw draw and an intensity
    into a value (\<open>sampler\<close>); every quantification over the tape and the sampler is a
    quantification over all outcomes of the random draws.
  The platform is 64-bit Linux on x86-64, where \<^verbatim>\<open>int\<close> of numpy is int64 and a C
  \<^verbatim>\<open>long\<close> has 64 bits; the product of an integer array and a Python float is a
  binary64 array (the promotion rule of numpy 2).
\<close>

subsection \<open>Exceptions\<close>

datatype error = ValueError string | KeyError string | IndexError string

text \<open>\<^verbatim>\<open>raise ValueError("Count matrix must contain integer values.")\<close>\<close>

definition InvalidInputError :: error where
  "InvalidInputError = ValueError ''Count matrix must contain integer values.''"

text \<open>\<^verbatim>\<open>raise ValueError("knock_type must be 'knock-up' or 'knock-down'")\<close>\<close>

definition InvalidParameterError :: error where
  "InvalidParameterError =
     ValueError (''knock_type must be '' @ [CHR 0x27] @ ''knock-up'' @ [CHR 0x27] @ '' or ''
                 @ [CHR 0x27] @ ''knock-down'' @ [CHR 0x27])"

subsection \<open>Binary64 floating point\<close>

text \<open>
  A binary64 value: a finite number, an infinity or NaN. The two zeros are one value;
  nothing below tells them apart (the cast to an integer, the comparisons and the
  products all agree on them).
\<close>

datatype float64 = Finite real | PInf | MInf | NaN

text \<open>
  Rounding of a real number to binary64, to nearest and ties to even. The exponent of
  \<open>x\<close> is that of its leading bit, not below that of the subnormal numbers; the last
  place of a number with this exponent is 52 bits lower; a result of magnitude
  \<open>2 ^ 1024\<close> or more is an infinity.
\<close>

definition exponent :: "real \<Rightarrow> int" where
  "exponent x = max \<lfloor>log 2 \<bar>x\<bar>\<rfloor> (- 1022)"

definition round_half_even :: "real \<Rightarrow> int" where
  "round_half_even q =
     (let f = \<lfloor>q\<rfloor> in
      if q - of_int f < 1 / 2 then f
      else if 1 / 2 < q - of_int f then f + 1
      else if even f then f else f + 1)"

definition round64 :: "real \<Rightarrow> float64" where
  "round64 x =
     (if x = 0 then Finite 0
      else
        (let ulp = 2 powi (exponent x - 52);
             y = ulp * of_int (round_half_even (x / ulp))
         in if 2 ^ 1024 \<le> \<bar>y\<bar> then (if 0 < x then PInf else MInf) else Finite y))"

text \<open>Addition, subtraction and multiplication of IEEE 754.\<close>

fun fneg :: "float64 \<Rightarrow> float64" where
  "fneg (Finite x) = Finite (- x)"
| "fneg PInf = MInf"
| "fneg MInf = PInf"
| "fneg NaN = NaN"

fun fadd :: "float64 \<Rightarrow> float64 \<Rightarrow> float64" where
  "fadd (Finite x) (Finite y) = round64 (x + y)"
| "fadd NaN b = NaN"
| "fadd a NaN = NaN"
| "fadd (Finite x) b = b"
| "fadd a (Finite y) = a"
| "fadd a b = (if a = b then a else NaN)"

definition fsub :: "float64 \<Rightarrow> float64 \<Rightarrow> float64" where
  "fsub a b = fadd a (fneg b)"

fun fmul :: "float64 \<Rightarrow> float64 \<Rightarrow> float64" where
  "fmul (Finite x) (Finite y) = round64 (x * y)"
| "fmul NaN b = NaN"
| "fmul a NaN = NaN"
| "fmul (Finite x) b =
     (if x = 0 then NaN else if (0 < x) = (b = PInf) then PInf else MInf)"
| "fmul a (Finite y) =
     (if y = 0 then NaN else if (0 < y) = (a = PInf) then PInf else MInf)"
| "fmul a b = (if a = b then PInf else MInf)"

text \<open>The conversion of an integer (of any integer dtype) to binary64.\<close>

definition float_of_int :: "int \<Rightarrow> float64" where
  "float_of_int c = round64 (of_int c)"

text \<open>
  \<^verbatim>\<open>.astype(int)\<close> on a binary64 array: the C conversion to int64, which truncates toward
  zero. Outside the range of int64 (and on an infinity or NaN) C leaves the result open;
  the processor of the platform (x86-64) gives \<open>- (2 ^ 63)\<close>.
\<close>

fun astype_int :: "float64 \<Rightarrow> int" where
  "astype_int (Finite x) =
     (let t = (if x < 0 then \<lceil>x\<rceil> else \<lfloor>x\<rfloor>)
      in if - (2 ^ 63) \<le> t \<and> t < 2 ^ 63 then t else - (2 ^ 63))"
| "astype_int PInf = - (2 ^ 63)"
| "astype_int MInf = - (2 ^ 63)"
| "astype_int NaN = - (2 ^ 63)"

subsection \<open>Integer dtypes\<close>

datatype int_dtype = Int8 | Int16 | Int32 | Int64 | UInt8 | UInt16 | UInt32 | UInt64

fun bits :: "int_dtype \<Rightarrow> nat" where
  "bits Int8 = 8"
| "bits Int16 = 16"
| "bits Int32 = 32"
| "bits Int64 = 64"
| "bits UInt8 = 8"
| "bits UInt16 = 16"
| "bits UInt32 = 32"
| "bits UInt64 = 64"

fun signed :: "int_dtype \<Rightarrow> bool" where
  "signed Int8 = True"
| "signed Int16 = True"
| "signed Int32 = True"
| "signed Int64 = True"
| "signed UInt8 = False"
| "signed UInt16 = False"
| "signed UInt32 = False"
| "signed UInt64 = False"

text \<open>The cast of an integer into a dtype: the value modulo \<open>2 ^ bits\<close>, read in the dtype.\<close>

definition cast_int :: "int_dtype \<Rightarrow> int \<Rightarrow> int" where
  "cast_int t v =
     (if signed t then (v + 2 ^ (bits t - 1)) mod 2 ^ bits t - 2 ^ (bits t - 1)
      else v mod 2 ^ bits t)"

text \<open>The values of a dtype: from \<^verbatim>\<open>np.iinfo(t).min\<close> to \<^verbatim>\<open>np.iinfo(t).max\<close>.\<close>

definition fits :: "int_dtype \<Rightarrow> int \<Rightarrow> bool" where
  "fits t v =
     (if signed t then - (2 ^ (bits t - 1)) \<le> v \<and> v < 2 ^ (bits t - 1)
      else 0 \<le> v \<and> v < 2 ^ bits t)"

subsection \<open>Arrays, data frames, AnnData objects and the world\<close>

text \<open>
  A two-dimensional numpy array: its shape (rows, columns) and its rows. \<open>IntArray\<close> is an
  array with a dtype below \<^verbatim>\<open>np.integer\<close>, \<open>FloatArray\<close> an array of any other dtype.
\<close>

datatype ndarray =
    IntArray (dtype: int_dtype) (shape0: nat) (shape1: nat) (int_data: "int list list")
  | FloatArray (shape0: nat) (shape1: nat) (float_data: "real list list")

definition shape :: "ndarray \<Rightarrow> nat \<times> nat" where
  "shape arr = (shape0 arr, shape1 arr)"

text \<open>\<^verbatim>\<open>np.issubdtype(X.dtype, np.integer)\<close>\<close>

fun issubdtype_integer :: "ndarray \<Rightarrow> bool" where
  "issubdtype_integer (IntArray t r c d) = True"
| "issubdtype_integer (FloatArray r c d) = False"

text \<open>The invariant of a numpy array: the data fill the shape.\<close>

definition rectangular :: "nat \<Rightarrow> nat \<Rightarrow> 'a list list \<Rightarrow> bool" where
  "rectangular r c d = (length d = r \<and> list_all (\<lambda>row. length row = c) d)"

record DataFrame =
  index :: "string list"
  columns :: "string \<rightharpoonup> string list"

type_synonym addr = nat

record AnnData =
  X :: addr
  obs :: addr
  var :: addr

record world =
  arrays :: "addr \<Rightarrow> ndarray"
  frames :: "addr \<Rightarrow> DataFrame"
  next_addr :: addr
  stdout :: "string list"
  tape :: "nat \<Rightarrow> nat"
  rng_pos :: nat
  sampler :: "nat \<Rightarrow> float64 \<Rightarrow> nat"

text \<open>\<^verbatim>\<open>adata.n_obs\<close> and \<^verbatim>\<open>adata.n_vars\<close>: the lengths of the two indexes.\<close>

definition n_obs :: "world \<Rightarrow> AnnData \<Rightarrow> nat" where
  "n_obs w adata = length (index (frames w (obs adata)))"

definition n_vars :: "world \<Rightarrow> AnnData \<Rightarrow> nat" where
  "n_vars w adata = length (index (frames w (var adata)))"

text \<open>Python's \<^verbatim>\<open>str(i)\<close> and \<^verbatim>\<open>f"{i:d}"\<close> for a natural number.\<close>

fun str_nat :: "nat \<Rightarrow> string" where
  "str_nat n = (if n < 10 then [''0123456789'' ! n]
                else str_nat (n div 10) @ [''0123456789'' ! (n mod 10)])"

declare str_nat.simps [simp del]

text \<open>
  \<^verbatim>\<open>AnnData(X=arr)\<close>: the object owns the array and two fresh data frames whose indexes are
  \<^verbatim>\<open>"0", "1", ...\<close> along each axis.
\<close>

definition AnnData_init :: "world \<Rightarrow> ndarray \<Rightarrow> AnnData \<times> world" where
  "AnnData_init w arr =
     (let a = next_addr w; r = fst (shape arr); c = snd (shape arr) in
      (\<lparr>X = a, obs = a + 1, var = a + 2\<rparr>,
       w\<lparr>arrays := (arrays w)(a := arr),
         frames := (frames w)
           (a + 1 := \<lparr>index = map str_nat [0..<r], columns = Map.empty\<rparr>,
            a + 2 := \<lparr>index = map str_nat [0..<c], columns = Map.empty\<rparr>),
         next_addr := a + 3\<rparr>))"

text \<open>\<^verbatim>\<open>adata.copy()\<close>: a new object with its own array and its own data frames.\<close>

definition AnnData_copy :: "world \<Rightarrow> AnnData \<Rightarrow> AnnData \<times> world" where
  "AnnData_copy w adata =
     (let a = next_addr w in
      (\<lparr>X = a, obs = a + 1, var = a + 2\<rparr>,
       w\<lparr>arrays := (arrays w)(a := arrays w (X adata)),
         frames := (frames w)
           (a + 1 := frames w (obs adata),
            a + 2 := frames w (var adata)),
         next_addr := a + 3\<rparr>))"

subsection \<open>The numpy operations the notebook calls\<close>

text \<open>
  \<^verbatim>\<open>np.random.randint(low, high, size=(r, c))\<close>: an int64 array, one raw draw of the tape
  for each entry, brought into \<open>[low, high)\<close>.
\<close>

definition randint :: "world \<Rightarrow> int \<Rightarrow> int \<Rightarrow> int \<times> int \<Rightarrow> (error + ndarray) \<times> world" where
  "randint w low high sz =
     (if high \<le> low then (Inl (ValueError ''low >= high''), w)
      else if fst sz < 0 \<or> snd sz < 0
        then (Inl (ValueError ''negative dimensions are not allowed''), w)
      else
        (let r = nat (fst sz); c = nat (snd sz) in
         (Inr (IntArray Int64 r c
                 (map (\<lambda>i. map (\<lambda>j. low + int (tape w (rng_pos w + i * c + j)) mod (high - low))
                                [0..<c])
                      [0..<r])),
          w\<lparr>rng_pos := rng_pos w + r * c\<rparr>)))"

text \<open>
  The largest intensity \<^verbatim>\<open>np.random.poisson\<close> accepts: the binary64 value of
  \<^verbatim>\<open>np.iinfo('l').max - np.sqrt(np.iinfo('l').max) * 10\<close>.
\<close>

definition lam_max :: real where
  "lam_max = 9223372006484770816"

text \<open>The two tests of numpy on an intensity; NaN fails both.\<close>

fun lam_not_too_large :: "float64 \<Rightarrow> bool" where
  "lam_not_too_large (Finite x) = (x \<le> lam_max)"
| "lam_not_too_large MInf = True"
| "lam_not_too_large PInf = False"
| "lam_not_too_large NaN = False"

fun lam_not_negative :: "float64 \<Rightarrow> bool" where
  "lam_not_negative (Finite x) = (0 \<le> x)"
| "lam_not_negative PInf = True"
| "lam_not_negative MInf = False"
| "lam_not_negative NaN = False"

text \<open>
  One Poisson draw of intensity \<open>lam\<close>: exactly 0 when the intensity is 0, and otherwise
  the value the sampler \<open>smp\<close> makes of the raw draw and the intensity, a C \<^verbatim>\<open>long\<close> that is
  not negative.
\<close>

definition poisson_draw :: "(nat \<Rightarrow> float64 \<Rightarrow> nat) \<Rightarrow> nat \<Rightarrow> float64 \<Rightarrow> int" where
  "poisson_draw smp raw lam = (if lam = Finite 0 then 0 else int (smp raw lam) mod 2 ^ 63)"

text \<open>
  \<^verbatim>\<open>np.random.poisson(lam=lams)\<close> for a vector of intensities: numpy first tests that no
  intensity is too large, then that none is negative or NaN, and raises ValueError
  otherwise; it then draws one value for each entry, each from its own cell of the tape.
\<close>

definition poisson ::
  "(nat \<Rightarrow> float64 \<Rightarrow> nat) \<Rightarrow> (nat \<Rightarrow> nat) \<Rightarrow> nat \<Rightarrow> float64 list \<Rightarrow> error + int list" where
  "poisson smp tp p lams =
     (if \<not> list_all lam_not_too_large lams then Inl (ValueError ''lam value too large'')
      else if \<not> list_all lam_not_negative lams
        then Inl (ValueError ''lam < 0 or lam contains NaNs'')
      else Inr (map (\<lambda>i. poisson_draw smp (tp (p + i)) (lams ! i)) [0..<length lams]))"

text \<open>Python's \<^verbatim>\<open>list.index\<close>: the first position of the value, ValueError when absent.\<close>

fun list_index :: "string list \<Rightarrow> string \<Rightarrow> nat option" where
  "list_index [] g = None"
| "list_index (h # hs) g = (if h = g then Some 0 else map_option Suc (list_index hs g))"

subsection \<open>\<^verbatim>\<open>simulate_count_data\<close>\<close>

definition simulate_count_data :: "world \<Rightarrow> int \<Rightarrow> int \<Rightarrow> int \<Rightarrow> (error + AnnData) \<times> world" where
  "simulate_count_data w n_gene n_samples max_count =
     (case randint w 0 512 (n_gene, n_samples) of
        (Inl e, w1) \<Rightarrow> (Inl e, w1)
      | (Inr arr, w1) \<Rightarrow>
          (case AnnData_init w1 arr of
             (adata, w2) \<Rightarrow>
               (let samples = map (\<lambda>i. ''CELL'' @ str_nat i) [0..<n_obs w2 adata];
                    gene_names = map (\<lambda>i. ''GENE'' @ str_nat i) [0..<n_vars w2 adata];
                    w3 = w2\<lparr>frames := (frames w2)
                              (obs adata := (frames w2 (obs adata))\<lparr>index := samples\<rparr>)\<rparr>;
                    w4 = w3\<lparr>frames := (frames w3)
                              (var adata := (frames w3 (var adata))\<lparr>index := gene_names\<rparr>)\<rparr>;
                    w5 = w4\<lparr>frames := (frames w4)
                              (obs adata := (frames w4 (obs adata))
                                 \<lparr>columns := (columns (frames w4 (obs adata)))
                                                (''samples'' \<mapsto> samples)\<rparr>)\<rparr>;
                    w6 = w5\<lparr>frames := (frames w5)
                              (var adata := (frames w5 (var adata))
                                 \<lparr>columns := (columns (frames w5 (var adata)))
                                                (''gene_names'' \<mapsto> gene_names)\<rparr>)\<rparr>
                in (Inr adata, w6))))"

subsection \<open>\<^verbatim>\<open>perturb_genes_counts\<close>\<close>

text \<open>
  What the loop over \<^verbatim>\<open>target_genes\<close> changes: the rows of the array \<^verbatim>\<open>X\<close> of the copy,
  the lines printed so far and the read position of the random tape.
\<close>

record loop_state =
  rows :: "int list list"
  printed :: "string list"
  pos :: nat

text \<open>\<^verbatim>\<open>f"Gene {gene} not found in the dataset!"\<close>\<close>

definition not_found :: "string \<Rightarrow> string" where
  "not_found gene = ''Gene '' @ gene @ '' not found in the dataset!''"

text \<open>
  The \<^verbatim>\<open>if\<close>/\<^verbatim>\<open>elif\<close>/\<^verbatim>\<open>else\<close> on \<^verbatim>\<open>knock_type\<close>. Python computes the factor
  \<^verbatim>\<open>1 - fold_change\<close> (or \<^verbatim>\<open>1 + fold_change\<close>) in binary64; numpy converts every count to
  binary64, multiplies in binary64, and \<^verbatim>\<open>.astype(int)\<close> casts the product to int64.
\<close>

definition scale_counts :: "string \<Rightarrow> float64 \<Rightarrow> int list \<Rightarrow> error + int list" where
  "scale_counts knock_type fold_change original_counts =
     (if knock_type = ''knock-down''
        then Inr (map (\<lambda>c. astype_int (fmul (float_of_int c) (fsub (Finite 1) fold_change)))
                      original_counts)
      else if knock_type = ''knock-up''
        then Inr (map (\<lambda>c. astype_int (fmul (float_of_int c) (fadd (Finite 1) fold_change)))
                      original_counts)
      else Inl InvalidParameterError)"

text \<open>
  One iteration of the loop. \<open>var_in\<close> is \<^verbatim>\<open>adata.var\<close>, \<open>var_cp\<close> is
  \<^verbatim>\<open>perturbed_adata.var\<close>, \<open>t\<close> is \<^verbatim>\<open>X.dtype\<close> and \<open>ncols\<close> is \<^verbatim>\<open>X.shape[1]\<close>. The
  exceptions of the library calls are branches: KeyError of \<^verbatim>\<open>var[gene_names]\<close>,
  ValueError of \<^verbatim>\<open>list.index\<close>, IndexError of \<^verbatim>\<open>X[:, gene_idx]\<close>, ValueError of
  \<^verbatim>\<open>np.random.poisson\<close>. The intensities are products in binary64; \<^verbatim>\<open>+=\<close> adds in int64
  and wraps around; \<^verbatim>\<open>np.clip\<close> works on the int64 vector; the assignment to
  \<^verbatim>\<open>X[:, gene_idx]\<close> casts every value into the dtype of \<^verbatim>\<open>X\<close>.
\<close>

definition perturb_gene ::
  "(nat \<Rightarrow> float64 \<Rightarrow> nat) \<Rightarrow> (nat \<Rightarrow> nat) \<Rightarrow> DataFrame \<Rightarrow> DataFrame \<Rightarrow> int_dtype \<Rightarrow> nat
     \<Rightarrow> string \<Rightarrow> string \<Rightarrow> float64 \<Rightarrow> float64 \<Rightarrow> string \<Rightarrow> loop_state
     \<Rightarrow> error + loop_state" where
  "perturb_gene smp tp var_in var_cp t ncols gene_names knock_type fold_change noise_level
     gene st =
     (case columns var_in gene_names of
        None \<Rightarrow> Inl (KeyError gene_names)
      | Some names_in \<Rightarrow>
          if gene \<notin> set names_in
            then Inr (st\<lparr>printed := printed st @ [not_found gene]\<rparr>)
          else
            (case columns var_cp gene_names of
               None \<Rightarrow> Inl (KeyError gene_names)
             | Some names \<Rightarrow>
                 (case list_index names gene of
                    None \<Rightarrow> Inl (ValueError (gene @ '' is not in list''))
                  | Some gene_idx \<Rightarrow>
                      if ncols \<le> gene_idx
                        then Inl (IndexError ''index is out of bounds for axis 1'')
                      else
                        (let original_counts = map (\<lambda>row. row ! gene_idx) (rows st) in
                         case scale_counts knock_type fold_change original_counts of
                           Inl e \<Rightarrow> Inl e
                         | Inr perturbed_counts \<Rightarrow>
                             (case poisson smp tp (pos st)
                                     (map (\<lambda>c. fmul noise_level (float_of_int (max c 1)))
                                          perturbed_counts) of
                                Inl e \<Rightarrow> Inl e
                              | Inr noise \<Rightarrow>
                                  (let perturbed_counts1 =
                                         map2 (\<lambda>c n. cast_int Int64 (c + n)) perturbed_counts noise;
                                       perturbed_counts2 = map (\<lambda>c. max c 0) perturbed_counts1
                                   in Inr (st\<lparr>rows := map2 (\<lambda>row v. row[gene_idx := cast_int t v])
                                                          (rows st) perturbed_counts2,
                                              pos := pos st + length perturbed_counts\<rparr>)))))))"

text \<open>
  \<^verbatim>\<open>for gene in target_genes\<close>: an exception ends the loop and leaves the state of the
  iteration that raised it.
\<close>

fun perturb_loop ::
  "(nat \<Rightarrow> float64 \<Rightarrow> nat) \<Rightarrow> (nat \<Rightarrow> nat) \<Rightarrow> DataFrame \<Rightarrow> DataFrame \<Rightarrow> int_dtype \<Rightarrow> nat
     \<Rightarrow> string \<Rightarrow> string \<Rightarrow> float64 \<Rightarrow> float64 \<Rightarrow> string list \<Rightarrow> loop_state
     \<Rightarrow> error option \<times> loop_state" where
  "perturb_loop smp tp var_in var_cp t ncols gene_names knock_type fold_change noise_level
     [] st = (None, st)"
| "perturb_loop smp tp var_in var_cp t ncols gene_names knock_type fold_change noise_level
     (gene # rest) st =
     (case perturb_gene smp tp var_in var_cp t ncols gene_names knock_type fold_change
             noise_level gene st of
        Inl e \<Rightarrow> (Some e, st)
      | Inr st' \<Rightarrow>
          perturb_loop smp tp var_in var_cp t ncols gene_names knock_type fold_change
            noise_level rest st')"

text \<open>
  The function itself: the copy, the test of the dtype, the loop, and the return of the
  copy. The caller passes every argument (the defaults of the Python signature are
  \<^verbatim>\<open>knock_type="knock-down"\<close>, \<^verbatim>\<open>fold_change=0.5\<close> and \<^verbatim>\<open>noise_level=0.1\<close>), and passes
  floats for \<^verbatim>\<open>fold_change\<close> and \<^verbatim>\<open>noise_level\<close>, as the annotations
  \<^verbatim>\<open>fold_change: float\<close> and \<^verbatim>\<open>noise_level: float\<close> of the signature ask. The loop
  mutates the array of the copy in place; here it runs on the rows of that array and the
  store receives them when the loop ends, by its last iteration or by an exception.
\<close>

definition perturb_genes_counts ::
  "world \<Rightarrow> AnnData \<Rightarrow> string \<Rightarrow> string list \<Rightarrow> string \<Rightarrow> float64 \<Rightarrow> float64
     \<Rightarrow> (error + AnnData) \<times> world" where
  "perturb_genes_counts w adata gene_names target_genes knock_type fold_change noise_level =
     (case AnnData_copy w adata of
        (perturbed_adata, w1) \<Rightarrow>
          (let X0 = arrays w1 (X perturbed_adata) in
           if \<not> issubdtype_integer X0 then (Inl InvalidInputError, w1)
           else
             (case perturb_loop (sampler w1) (tape w1) (frames w1 (var adata))
                     (frames w1 (var perturbed_adata)) (dtype X0) (shape1 X0) gene_names
                     knock_type fold_change noise_level target_genes
                     \<lparr>rows = int_data X0, printed = stdout w1, pos = rng_pos w1\<rparr> of
                (err, st) \<Rightarrow>
                  (let w2 = w1\<lparr>arrays := (arrays w1)
                                 (X perturbed_adata :=
                                    IntArray (dtype X0) (shape0 X0) (shape1 X0) (rows st)),
                               stdout := printed st,
                               rng_pos := pos st\<rparr>
                   in case err of
                        Some e \<Rightarrow> (Inl e, w2)
                      | None \<Rightarrow> (Inr perturbed_adata, w2)))))"

subsection \<open>Well-formed inputs\<close>

text \<open>The three objects of \<open>adata\<close> have been allocated in the world \<open>w\<close>.\<close>

definition allocated :: "world \<Rightarrow> AnnData \<Rightarrow> bool" where
  "allocated w adata =
     (X adata < next_addr w \<and> obs adata < next_addr w \<and> var adata < next_addr w)"

text \<open>
  \<open>adata\<close> is a labeled integer matrix: its array has the integer dtype \<open>t\<close> and the rows
  \<open>d\<close>, the column \<open>gene_names\<close> of its \<^verbatim>\<open>var\<close> data frame is the gene index \<open>names\<close>, and
  the array has one column for each name (the shape invariant of AnnData).
\<close>

definition labeled_int_matrix ::
  "world \<Rightarrow> AnnData \<Rightarrow> string \<Rightarrow> int_dtype \<Rightarrow> int list list \<Rightarrow> string list \<Rightarrow> bool" where
  "labeled_int_matrix w adata gene_names t d names =
     (allocated w adata
      \<and> arrays w (X adata) = IntArray t (length d) (length names) d
      \<and> rectangular (length d) (length names) d
      \<and> columns (frames w (var adata)) gene_names = Some names)"

text \<open>The invariant of a count matrix: no entry is negative.\<close>

definition non_negative :: "int list list \<Rightarrow> bool" where
  "non_negative d = list_all (list_all (\<lambda>x. 0 \<le> x)) d"


text \<open>
  A count that binary64 represents exactly and that lies in the range of int64: the
  conversion to binary64 and the cast back to int64 give it back. Every integer of
  magnitude up to \<open>2 ^ 53\<close> is one.
\<close>

definition represented_exactly :: "int \<Rightarrow> bool" where
  "represented_exactly c = (float_of_int c = Finite (of_int c) \<and> fits Int64 c)"

text \<open>
  A count that an iteration with factor 1 and no noise writes back as it is: it is not
  negative (the clip), it is a value of the dtype of the matrix, and it is represented
  exactly.
\<close>

definition kept_exactly :: "int_dtype \<Rightarrow> int \<Rightarrow> bool" where
  "kept_exactly t c = (0 \<le> c \<and> fits t c \<and> represented_exactly c)"

text \<open>
  \<^verbatim>\<open>arr[...] = values\<close> from outside: any later mutation of the array stored at an address
  replaces what the store holds there.
\<close>

definition setitem :: "world \<Rightarrow> addr \<Rightarrow> ndarray \<Rightarrow> world" where
  "setitem w a arr = w\<lparr>arrays := (arrays w)(a := arr)\<rparr>"

subsection \<open>A small world for concrete runs\<close>

text \<open>
  One AnnData object with two cells and two genes and an int64 matrix; every raw draw of
  the tape is 3, and the sampler adds the integer part of the intensity to the raw draw.
\<close>

definition demo_adata :: AnnData where
  "demo_adata = \<lparr>X = 0, obs = 1, var = 2\<rparr>"

definition demo_world :: world where
  "demo_world =
     \<lparr>arrays = (\<lambda>a. IntArray Int64 0 0 [])(0 := IntArray Int64 2 2 [[10, 20], [30, 40]]),
      frames = (\<lambda>a. \<lparr>index = [], columns = Map.empty\<rparr>)
        (1 := \<lparr>index = [''CELL0'', ''CELL1''],
               columns = [''samples'' \<mapsto> [''CELL0'', ''CELL1'']]\<rparr>,
         2 := \<lparr>index = [''GENE0'', ''GENE1''],
               columns = [''gene_names'' \<mapsto> [''GENE0'', ''GENE1'']]\<rparr>),
      next_addr = 3,
      stdout = [],
      tape = (\<lambda>k. 3),
      rng_pos = 0,
      sampler = (\<lambda>raw lam. raw + nat (astype_int lam))\<rparr>"

section \<open>Properties\<close>

subsection \<open>Binary64: numbers that need no rounding\<close>

lemma powr_two_int: "(2::real) powr real_of_int n = 2 powi n"
  by (rule powr_real_of_int') simp_all

lemma floor_log2_iff:
  assumes "x \<noteq> 0"
  shows "\<lfloor>log 2 \<bar>x\<bar>\<rfloor> = e \<longleftrightarrow> 2 powi e \<le> \<bar>x\<bar> \<and> \<bar>x\<bar> < 2 powi (e + 1)"
proof -
  have pos: "0 < \<bar>x\<bar>" using assms by simp
  have "real_of_int e + 1 = real_of_int (e + 1)" by simp
  then have "(2::real) powr (real_of_int e + 1) = 2 powi (e + 1)"
    using powr_two_int [of "e + 1"] by metis
  then show ?thesis
    using floor_log_eq_powr_iff [OF pos, of 2 e] powr_two_int [of e] by simp
qed

lemma floor_log2_eq:
  assumes "2 powi e \<le> \<bar>x\<bar>" and "\<bar>x\<bar> < 2 powi (e + 1)"
  shows "\<lfloor>log 2 \<bar>x\<bar>\<rfloor> = e"
proof -
  have "0 < \<bar>x\<bar>"
    using assms(1) zero_less_power_int [of "2::real" e] by linarith
  then have "x \<noteq> 0" by auto
  from floor_log2_iff [OF this, of e] assms show ?thesis by simp
qed

lemma floor_log2_bounds:
  assumes "x \<noteq> 0"
  shows "2 powi \<lfloor>log 2 \<bar>x\<bar>\<rfloor> \<le> \<bar>x\<bar>" and "\<bar>x\<bar> < 2 powi (\<lfloor>log 2 \<bar>x\<bar>\<rfloor> + 1)"
  using floor_log2_iff [OF assms, of "\<lfloor>log 2 \<bar>x\<bar>\<rfloor>"] by simp_all

lemma round_half_even_of_int [simp]: "round_half_even (of_int n) = n"
  by (simp add: round_half_even_def)

lemma two_powi_less_cancel:
  assumes "(2::real) powi a < 2 powi b"
  shows "a < b"
proof (rule ccontr)
  assume "\<not> a < b"
  then have "b \<le> a" by simp
  then have "(2::real) powi b \<le> 2 powi a"
    by (rule power_int_increasing) simp
  with assms show False by simp
qed

text \<open>
  A number \<open>m * 2 ^ k\<close> with a significand \<open>m\<close> of at most 53 bits and an exponent in the
  range of binary64 is a binary64 number: rounding gives it back.
\<close>

lemma round64_exact:
  assumes x: "x = of_int m * 2 powi k"
    and m: "\<bar>m\<bar> < 2 ^ 53"
    and k: "- 1074 \<le> k" "k \<le> 971"
  shows "round64 x = Finite x"
proof (cases "x = 0")
  case True
  then show ?thesis by (simp add: round64_def)
next
  case False
  define e0 where "e0 = \<lfloor>log 2 \<bar>x\<bar>\<rfloor>"
  have lo: "2 powi e0 \<le> \<bar>x\<bar>"
    unfolding e0_def by (rule floor_log2_bounds(1) [OF False])
  have absx: "\<bar>x\<bar> = of_int \<bar>m\<bar> * 2 powi k"
    by (simp add: x abs_mult)
  have "real_of_int \<bar>m\<bar> < 2 ^ 53"
    using m by (metis of_int_less_numeral_power_cancel_iff)
  then have "\<bar>x\<bar> < 2 ^ 53 * 2 powi k"
    unfolding absx by (intro mult_strict_right_mono) simp_all
  also have "\<dots> = 2 powi (53 + k)"
    by (simp add: power_int_add)
  finally have hi: "\<bar>x\<bar> < 2 powi (53 + k)" .
  from lo hi have "(2::real) powi e0 < 2 powi (53 + k)" by simp
  then have e0: "e0 < 53 + k" by (rule two_powi_less_cancel)
  define E where "E = exponent x"
  have E: "E - 52 \<le> k"
    using e0 k by (simp add: E_def exponent_def e0_def [symmetric])
  define j where "j = nat (k - (E - 52))"
  have kj: "k = (E - 52) + int j"
    using E by (simp add: j_def)
  have quot: "x / 2 powi (E - 52) = of_int (m * 2 ^ j)"
    by (simp add: x kj power_int_add)
  have recon: "2 powi (E - 52) * of_int (m * 2 ^ j) = x"
    by (simp add: x kj power_int_add)
  have "53 + k \<le> 1024" using k by simp
  then have "(2::real) powi (53 + k) \<le> 2 powi 1024"
    by (rule power_int_increasing) simp
  with hi have small: "\<bar>x\<bar> < 2 ^ 1024" by simp
  show ?thesis
    using False small
    by (simp add: round64_def Let_def E_def [symmetric] quot recon del: of_int_mult of_int_power)
qed

lemma round64_of_int:
  assumes "\<bar>c\<bar> \<le> 2 ^ 53"
  shows "round64 (of_int c) = Finite (of_int c)"
proof (cases "\<bar>c\<bar> = 2 ^ 53")
  case False
  with assms have "\<bar>c\<bar> < 2 ^ 53" by simp
  then show ?thesis
    by (intro round64_exact [of _ c 0]) simp_all
next
  case True
  then have "c = 2 ^ 53 \<or> c = - (2 ^ 53)" by linarith
  then have "real_of_int c = of_int (c div 2) * 2 powi 1" and "\<bar>c div 2\<bar> < 2 ^ 53"
    by auto
  then show ?thesis
    by (intro round64_exact [of _ "c div 2" 1]) simp_all
qed

lemma round64_dyadic:
  assumes "x * 2 ^ n = of_int m" and "\<bar>m\<bar> < 2 ^ 53" and "n \<le> 1074"
  shows "round64 x = Finite x"
proof -
  have "x = of_int m * 2 powi (- int n)"
    using assms(1) by (simp add: power_int_minus field_simps)
  then show ?thesis
    using assms(2,3) by (intro round64_exact [of _ m "- int n"]) simp_all
qed

text \<open>Every integer up to \<open>2 ^ 53\<close> in magnitude converts to binary64 without rounding.\<close>

lemma float_of_int_exact:
  "\<bar>c\<bar> \<le> 2 ^ 53 \<Longrightarrow> float_of_int c = Finite (of_int c)"
  by (simp add: float_of_int_def round64_of_int)

text \<open>The forms in which the simplifier meets such numbers in a concrete run.\<close>

named_theorems binary64_exact

lemma round64_0 [binary64_exact]: "round64 0 = Finite 0"
  by (simp add: round64_def)

lemma round64_1 [binary64_exact]: "round64 1 = Finite 1"
  using round64_of_int [of 1] by simp

lemma round64_numeral [binary64_exact]:
  "(numeral n :: int) \<le> 2 ^ 53 \<Longrightarrow> round64 (numeral n) = Finite (numeral n)"
  using round64_of_int [of "numeral n"] by simp

lemma round64_neg_numeral [binary64_exact]:
  "(numeral n :: int) \<le> 2 ^ 53 \<Longrightarrow> round64 (- numeral n) = Finite (- numeral n)"
  using round64_of_int [of "- numeral n"] by simp

lemma round64_halves [binary64_exact]:
  "(numeral n :: int) < 2 ^ 53 \<Longrightarrow> round64 (numeral n / 2) = Finite (numeral n / 2)"
  "(numeral n :: int) < 2 ^ 53 \<Longrightarrow> round64 (- (numeral n / 2)) = Finite (- (numeral n / 2))"
  "round64 (1 / 2) = Finite (1 / 2)"
  "round64 (- (1 / 2)) = Finite (- (1 / 2))"
  by (rule round64_dyadic [of _ 1 "numeral n"], simp, simp, simp,
      rule round64_dyadic [of _ 1 "- numeral n"], simp, simp, simp,
      rule round64_dyadic [of _ 1 1], simp, simp, simp,
      rule round64_dyadic [of _ 1 "- 1"], simp, simp, simp)

lemma round64_quarters [binary64_exact]:
  "(numeral n :: int) < 2 ^ 53 \<Longrightarrow> round64 (numeral n / 4) = Finite (numeral n / 4)"
  "(numeral n :: int) < 2 ^ 53 \<Longrightarrow> round64 (- (numeral n / 4)) = Finite (- (numeral n / 4))"
  "round64 (1 / 4) = Finite (1 / 4)"
  "round64 (- (1 / 4)) = Finite (- (1 / 4))"
  by (rule round64_dyadic [of _ 2 "numeral n"], simp, simp, simp,
      rule round64_dyadic [of _ 2 "- numeral n"], simp, simp, simp,
      rule round64_dyadic [of _ 2 1], simp, simp, simp,
      rule round64_dyadic [of _ 2 "- 1"], simp, simp, simp)

lemma round64_eighths [binary64_exact]:
  "(numeral n :: int) < 2 ^ 53 \<Longrightarrow> round64 (numeral n / 8) = Finite (numeral n / 8)"
  "(numeral n :: int) < 2 ^ 53 \<Longrightarrow> round64 (- (numeral n / 8)) = Finite (- (numeral n / 8))"
  "round64 (1 / 8) = Finite (1 / 8)"
  "round64 (- (1 / 8)) = Finite (- (1 / 8))"
  by (rule round64_dyadic [of _ 3 "numeral n"], simp, simp, simp,
      rule round64_dyadic [of _ 3 "- numeral n"], simp, simp, simp,
      rule round64_dyadic [of _ 3 1], simp, simp, simp,
      rule round64_dyadic [of _ 3 "- 1"], simp, simp, simp)

lemma float_of_int_numeral [binary64_exact]:
  "float_of_int 0 = Finite 0"
  "float_of_int 1 = Finite 1"
  "(numeral n :: int) \<le> 2 ^ 53 \<Longrightarrow> float_of_int (numeral n) = Finite (numeral n)"
  "(numeral n :: int) \<le> 2 ^ 53 \<Longrightarrow> float_of_int (- numeral n) = Finite (- numeral n)"
  using float_of_int_exact [of 0] float_of_int_exact [of 1]
    float_of_int_exact [of "numeral n"] float_of_int_exact [of "- numeral n"]
  by simp_all

subsection \<open>Binary64: rounding at work\<close>

lemma round64_eval:
  assumes "2 powi e \<le> \<bar>x\<bar>" and "\<bar>x\<bar> < 2 powi (e + 1)"
    and "- 1022 \<le> e"
    and "round_half_even (x / 2 powi (e - 52)) = n"
    and "\<bar>2 powi (e - 52) * real_of_int n\<bar> < 2 ^ 1024"
  shows "round64 x = Finite (2 powi (e - 52) * of_int n)"
proof -
  have "0 < \<bar>x\<bar>"
    using assms(1) zero_less_power_int [of "2::real" e] by linarith
  then have nz: "x \<noteq> 0" by auto
  have "exponent x = e"
    using floor_log2_eq [OF assms(1,2)] assms(3) by (simp add: exponent_def)
  with nz assms(4,5) show ?thesis
    by (simp add: round64_def Let_def)
qed


text \<open>
  The Python literal \<^verbatim>\<open>0.8\<close> is the binary64 number nearest to \<open>4 / 5\<close>, a little above it,
  so that \<^verbatim>\<open>1 - 0.8\<close> is a little below \<open>1 / 5\<close> and its products with 10, 20, 30 and 40
  are a little below 2, 4, 6 and 8: the scaled counts are 1, 3, 5 and 7.
\<close>

lemma round64_four_fifths:
  "round64 (4 / 5) = Finite (3602879701896397 / 4503599627370496)"
  using round64_eval [of "- 1" "4 / 5" 7205759403792794]
  by (simp add: round_half_even_def power_int_minus)

lemma scaled_four_fifths:
  "astype_int (fmul (float_of_int 10) (fsub (Finite 1) (round64 (4 / 5)))) = 1"
  "astype_int (fmul (float_of_int 20) (fsub (Finite 1) (round64 (4 / 5)))) = 3"
  "astype_int (fmul (float_of_int 30) (fsub (Finite 1) (round64 (4 / 5)))) = 5"
  "astype_int (fmul (float_of_int 40) (fsub (Finite 1) (round64 (4 / 5)))) = 7"
proof -
  have a: "round64 (900719925474099 / 4503599627370496)
             = Finite (900719925474099 / 4503599627370496)"
    by (rule round64_dyadic [of _ 52 900719925474099]) simp_all
  have b: "round64 (4503599627370495 / 2251799813685248)
             = Finite (4503599627370495 / 2251799813685248)"
    by (rule round64_dyadic [of _ 51 4503599627370495]) simp_all
  have c: "round64 (4503599627370495 / 1125899906842624)
             = Finite (4503599627370495 / 1125899906842624)"
    by (rule round64_dyadic [of _ 50 4503599627370495]) simp_all
  have d: "round64 (13510798882111485 / 2251799813685248)
             = Finite (3377699720527871 / 562949953421312)"
    using round64_eval [of 2 "13510798882111485 / 2251799813685248" 6755399441055742]
    by (simp add: round_half_even_def power_int_minus)
  have e: "round64 (4503599627370495 / 562949953421312)
             = Finite (4503599627370495 / 562949953421312)"
    by (rule round64_dyadic [of _ 49 4503599627370495]) simp_all
  show "astype_int (fmul (float_of_int 10) (fsub (Finite 1) (round64 (4 / 5)))) = 1"
    by (simp add: round64_four_fifths fsub_def binary64_exact a b)
  show "astype_int (fmul (float_of_int 20) (fsub (Finite 1) (round64 (4 / 5)))) = 3"
    by (simp add: round64_four_fifths fsub_def binary64_exact a c)
  show "astype_int (fmul (float_of_int 30) (fsub (Finite 1) (round64 (4 / 5)))) = 5"
    by (simp add: round64_four_fifths fsub_def binary64_exact a d)
  show "astype_int (fmul (float_of_int 40) (fsub (Finite 1) (round64 (4 / 5)))) = 7"
    by (simp add: round64_four_fifths fsub_def binary64_exact a e)
qed

lemma scale_counts_four_fifths:
  "scale_counts ''knock-down'' (round64 (4 / 5)) [10, 20, 30, 40] = Inr [1, 3, 5, 7]"
  by (simp add: scale_counts_def scaled_four_fifths)

text \<open>
  The Python literal \<^verbatim>\<open>0.1\<close> is a little above \<open>1 / 10\<close>; \<^verbatim>\<open>1 - 0.1\<close> rounds to the binary64
  number nearest to \<open>9 / 10\<close>, which is a little above it, and its product with 10 rounds
  to 9: the scaled count is 9.
\<close>

lemma round64_one_tenth:
  "round64 (1 / 10) = Finite (3602879701896397 / 36028797018963968)"
  using round64_eval [of "- 4" "1 / 10" 7205759403792794]
  by (simp add: round_half_even_def power_int_minus)

lemma one_minus_one_tenth:
  "fsub (Finite 1) (round64 (1 / 10)) = Finite (8106479329266893 / 9007199254740992)"
  using round64_eval [of "- 1" "32425917317067571 / 36028797018963968" 8106479329266893]
  by (simp add: fsub_def round64_one_tenth round_half_even_def power_int_minus)

lemma ten_times_nine_tenths:
  "fmul (float_of_int 10) (Finite (8106479329266893 / 9007199254740992)) = Finite 9"
  using round64_eval [of 3 "10 * (8106479329266893 / 9007199254740992)" 5066549580791808]
  by (simp add: binary64_exact round_half_even_def power_int_minus)

lemma scale_counts_one_tenth:
  "scale_counts ''knock-down'' (round64 (1 / 10)) [10] = Inr [9]"
  by (simp add: scale_counts_def one_minus_one_tenth ten_times_nine_tenths)

text \<open>The cast to int64 drops the fraction, of a negative number too.\<close>

lemma astype_int_truncates:
  "astype_int (Finite (- 15 / 4)) = - 3" "astype_int (Finite (15 / 4)) = 3"
  "astype_int (fmul (float_of_int 15) (fsub (Finite 1) (Finite (5/4)))) = - 3"
  by (simp_all add: binary64_exact fsub_def)

subsection \<open>Casts between integer dtypes\<close>

lemma cast_int_fits: "fits t (cast_int t v)"
  by (cases t) (simp_all add: fits_def cast_int_def)


lemma cast_int_Int64_range: "- (2 ^ 63) \<le> cast_int Int64 v \<and> cast_int Int64 v < 2 ^ 63"
  using cast_int_fits [of Int64 v] by (simp add: fits_def)

lemma cast_int_nonneg_wide:
  assumes "\<not> signed t \<or> t = Int64" and "0 \<le> y" and "y < 2 ^ 63"
  shows "0 \<le> cast_int t y"
  using assms by (cases t) (simp_all add: cast_int_def)

lemma cast_int_wraps: "cast_int Int8 200 = - 56" "cast_int UInt8 300 = 44"
  by (simp_all add: cast_int_def)

subsection \<open>The loop body and the loop\<close>

lemma list_index_Some:
  "g \<in> set names \<Longrightarrow> \<exists>i. list_index names g = Some i"
  by (induction names) auto

lemma list_index_bound:
  "list_index names g = Some i \<Longrightarrow> i < length names \<and> names ! i = g"
  by (induction names arbitrary: i) (auto split: if_splits)


lemma scale_counts_Inr:
  assumes "scale_counts knock_type fold_change cs = Inr pc"
  obtains factor where
    "knock_type = ''knock-down'' \<and> factor = fsub (Finite 1) fold_change
       \<or> knock_type = ''knock-up'' \<and> factor = fadd (Finite 1) fold_change"
    "pc = map (\<lambda>c. astype_int (fmul (float_of_int c) factor)) cs"
  using assms by (auto simp: scale_counts_def split: if_splits)

lemma poisson_Inr:
  assumes "poisson smp tp p lams = Inr noise"
  shows "length noise = length lams"
    and "\<And>i. i < length lams \<Longrightarrow> noise ! i = poisson_draw smp (tp (p + i)) (lams ! i)"
    and "\<And>i. i < length lams \<Longrightarrow> lam_not_too_large (lams ! i) \<and> lam_not_negative (lams ! i)"
  using assms by (auto simp: poisson_def list_all_length split: if_splits)

lemma poisson_draw_range: "0 \<le> poisson_draw smp raw lam \<and> poisson_draw smp raw lam < 2 ^ 63"
  by (simp add: poisson_draw_def)

lemma perturb_gene_absent:
  "columns var_in gene_names = Some names \<Longrightarrow> gene \<notin> set names \<Longrightarrow>
   perturb_gene smp tp var_in var_cp t ncols gene_names knock_type fold_change noise_level gene st
     = Inr (st\<lparr>printed := printed st @ [not_found gene]\<rparr>)"
  by (simp add: perturb_gene_def)

text \<open>
  What an iteration on a gene of the index does to the state, entry by entry: \<open>s\<close> is the
  scaled count, \<open>lam\<close> the intensity and \<open>n\<close> the draw.
\<close>

lemma perturb_gene_resolved:
  assumes v: "columns v gene_names = Some names"
    and g: "gene \<in> set names"
    and run: "perturb_gene smp tp v v t ncols gene_names knock_type fold_change noise_level gene st = Inr st'"
  obtains idx factor where
    "list_index names gene = Some idx" "idx < ncols"
    "knock_type = ''knock-down'' \<and> factor = fsub (Finite 1) fold_change
       \<or> knock_type = ''knock-up'' \<and> factor = fadd (Finite 1) fold_change"
    "length (rows st') = length (rows st)"
    "\<And>i. i < length (rows st) \<Longrightarrow>
        (let s = astype_int (fmul (float_of_int (rows st ! i ! idx)) factor);
             lam = fmul noise_level (float_of_int (max s 1));
             n = poisson_draw smp (tp (pos st + i)) lam
         in rows st' ! i = (rows st ! i)[idx := cast_int t (max (cast_int Int64 (s + n)) 0)]
            \<and> lam_not_too_large lam \<and> lam_not_negative lam)"
    "pos st' = pos st + length (rows st)"
    "printed st' = printed st"
proof -
  obtain idx where idx: "list_index names gene = Some idx"
    using list_index_Some [OF g] by blast
  let ?oc = "map (\<lambda>row. row ! idx) (rows st)"
  from run v g idx have b: "idx < ncols"
    by (auto simp: perturb_gene_def split: if_splits)
  from run v g idx b obtain pc where pc: "scale_counts knock_type fold_change ?oc = Inr pc"
    by (auto simp: perturb_gene_def Let_def split: sum.splits)
  from run v g idx b pc obtain noise where
    noise: "poisson smp tp (pos st) (map (\<lambda>c. fmul noise_level (float_of_int (max c 1))) pc)
              = Inr noise"
    by (auto simp: perturb_gene_def Let_def split: sum.splits)
  from run v g idx b pc noise have st':
    "st' = st\<lparr>rows := map2 (\<lambda>row v. row[idx := cast_int t v]) (rows st)
                        (map (\<lambda>c. max c 0) (map2 (\<lambda>c n. cast_int Int64 (c + n)) pc noise)),
              pos := pos st + length pc\<rparr>"
    by (auto simp: perturb_gene_def Let_def)
  from pc obtain factor where
    f: "knock_type = ''knock-down'' \<and> factor = fsub (Finite 1) fold_change
          \<or> knock_type = ''knock-up'' \<and> factor = fadd (Finite 1) fold_change"
    and pc_eq: "pc = map (\<lambda>c. astype_int (fmul (float_of_int c) factor)) ?oc"
    by (rule scale_counts_Inr)
  have lpc: "length pc = length (rows st)" by (simp add: pc_eq)
  have ln: "length noise = length (rows st)"
    using poisson_Inr(1) [OF noise] lpc by simp
  have len: "length (rows st') = length (rows st)"
    by (simp add: st' lpc ln)
  have nth: "(let s = astype_int (fmul (float_of_int (rows st ! i ! idx)) factor);
             lam = fmul noise_level (float_of_int (max s 1));
             n = poisson_draw smp (tp (pos st + i)) lam
         in rows st' ! i = (rows st ! i)[idx := cast_int t (max (cast_int Int64 (s + n)) 0)]
            \<and> lam_not_too_large lam \<and> lam_not_negative lam)"
    if i: "i < length (rows st)" for i
  proof -
    have pci: "pc ! i = astype_int (fmul (float_of_int (rows st ! i ! idx)) factor)"
      using i by (simp add: pc_eq)
    have lami: "map (\<lambda>c. fmul noise_level (float_of_int (max c 1))) pc ! i
                  = fmul noise_level (float_of_int (max (pc ! i) 1))"
      using i lpc by simp
    have ni: "noise ! i = poisson_draw smp (tp (pos st + i))
                            (fmul noise_level (float_of_int (max (pc ! i) 1)))"
      using poisson_Inr(2) [OF noise, of i] i lpc lami by simp
    have ok: "lam_not_too_large (fmul noise_level (float_of_int (max (pc ! i) 1)))
              \<and> lam_not_negative (fmul noise_level (float_of_int (max (pc ! i) 1)))"
      using poisson_Inr(3) [OF noise, of i] i lpc lami by simp
    have "rows st' ! i = (rows st ! i)[idx := cast_int t (max (cast_int Int64 (pc ! i + noise ! i)) 0)]"
      using i lpc ln by (simp add: st')
    with ni ok show ?thesis
      by (simp add: Let_def pci)
  qed
  show thesis
    by (rule that [OF idx b f len nth]) (simp_all add: st' lpc)
qed

lemma perturb_gene_len:
  assumes "columns v gene_names = Some names"
    and "perturb_gene smp tp v v t ncols gene_names knock_type fold_change noise_level gene st = Inr st'"
  shows "length (rows st') = length (rows st)"
proof (cases "gene \<in> set names")
  case True
  from assms(1) True assms(2) show ?thesis
    by (rule perturb_gene_resolved)
next
  case False
  with assms show ?thesis by (auto simp: perturb_gene_absent)
qed

lemma perturb_gene_row:
  assumes "columns v gene_names = Some names"
    and "perturb_gene smp tp v v t ncols gene_names knock_type fold_change noise_level gene st = Inr st'"
    and "i < length (rows st)"
  shows "rows st' ! i = rows st ! i
           \<or> (\<exists>idx y. list_index names gene = Some idx \<and> 0 \<le> y \<and> y < 2 ^ 63
                 \<and> rows st' ! i = (rows st ! i)[idx := cast_int t y])"
proof (cases "gene \<in> set names")
  case True
  from assms(1) True assms(2) show ?thesis
  proof (rule perturb_gene_resolved)
    fix idx factor
    assume idx: "list_index names gene = Some idx"
      and row: "\<And>i. i < length (rows st) \<Longrightarrow>
        (let s = astype_int (fmul (float_of_int (rows st ! i ! idx)) factor);
             lam = fmul noise_level (float_of_int (max s 1));
             n = poisson_draw smp (tp (pos st + i)) lam
         in rows st' ! i = (rows st ! i)[idx := cast_int t (max (cast_int Int64 (s + n)) 0)]
            \<and> lam_not_too_large lam \<and> lam_not_negative lam)"
    from row [OF assms(3)] obtain z where
      upd: "rows st' ! i = (rows st ! i)[idx := cast_int t (max (cast_int Int64 z) 0)]"
      by (auto simp: Let_def)
    have "0 \<le> max (cast_int Int64 z) 0" by simp
    moreover have "max (cast_int Int64 z) 0 < 2 ^ 63"
      using cast_int_Int64_range [of z] by simp
    ultimately show ?thesis
      using idx upd by blast
  qed
next
  case False
  with assms show ?thesis by (auto simp: perturb_gene_absent)
qed

lemma perturb_loop_all_absent:
  "columns var_in gene_names = Some names \<Longrightarrow> \<forall>g\<in>set target_genes. g \<notin> set names \<Longrightarrow>
   perturb_loop smp tp var_in var_cp t ncols gene_names knock_type fold_change noise_level target_genes st
     = (None, st\<lparr>printed := printed st @ map not_found target_genes\<rparr>)"
  by (induction target_genes arbitrary: st) (simp_all add: perturb_gene_absent)



lemma perturb_loop_invariant:
  assumes "perturb_loop smp tp v1 v2 t ncols gene_names knock_type fold_change noise_level
             target_genes st = (err, st')"
    and "P st"
    and "\<And>gene s s'. gene \<in> set target_genes \<Longrightarrow> P s \<Longrightarrow>
           perturb_gene smp tp v1 v2 t ncols gene_names knock_type fold_change noise_level gene s = Inr s'
           \<Longrightarrow> P s'"
  shows "P st'"
  using assms
proof (induction target_genes arbitrary: st)
  case Nil
  then show ?case by simp
next
  case (Cons gene rest)
  show ?case
  proof (cases "perturb_gene smp tp v1 v2 t ncols gene_names knock_type fold_change noise_level gene st")
    case (Inl e)
    with Cons.prems show ?thesis by simp
  next
    case (Inr s1)
    have p: "P s1" by (rule Cons.prems(3) [OF _ Cons.prems(2) Inr]) simp
    have run: "perturb_loop smp tp v1 v2 t ncols gene_names knock_type fold_change noise_level
             rest s1 = (err, st')"
      using Cons.prems(1) Inr by simp
    show ?thesis
    proof (rule Cons.IH [OF run p])
      fix g s s'
      assume "g \<in> set rest" "P s"
        "perturb_gene smp tp v1 v2 t ncols gene_names knock_type fold_change noise_level g s = Inr s'"
      then show "P s'"
        using Cons.prems(3) [of g s s'] by simp
    qed
  qed
qed

lemma perturb_loop_shape:
  assumes v: "columns v gene_names = Some names"
    and run: "perturb_loop smp tp v v t ncols gene_names knock_type fold_change noise_level
             target_genes st = (err, st')"
  shows "length (rows st') = length (rows st)
           \<and> (\<forall>i<length (rows st). length (rows st' ! i) = length (rows st ! i))"
proof (rule perturb_loop_invariant [OF run])
  show "length (rows st) = length (rows st)
          \<and> (\<forall>i<length (rows st). length (rows st ! i) = length (rows st ! i))"
    by simp
next
  fix gene s s'
  assume inv: "length (rows s) = length (rows st)
          \<and> (\<forall>i<length (rows st). length (rows s ! i) = length (rows st ! i))"
    and step: "perturb_gene smp tp v v t ncols gene_names knock_type fold_change noise_level gene s = Inr s'"
  have "length (rows s') = length (rows s)"
    using perturb_gene_len [OF v step] .
  moreover have "length (rows s' ! i) = length (rows s ! i)" if "i < length (rows s)" for i
    using perturb_gene_row [OF v step that] by auto
  ultimately show "length (rows s') = length (rows st)
          \<and> (\<forall>i<length (rows st). length (rows s' ! i) = length (rows st ! i))"
    using inv by simp
qed

lemma perturb_loop_frame:
  assumes v: "columns v gene_names = Some names"
    and run: "perturb_loop smp tp v v t ncols gene_names knock_type fold_change noise_level
             target_genes st = (err, st')"
    and j: "\<forall>g\<in>set target_genes. list_index names g \<noteq> Some j"
    and i: "i < length (rows st)"
  shows "rows st' ! i ! j = rows st ! i ! j"
proof -
  have "length (rows st') = length (rows st) \<and> rows st' ! i ! j = rows st ! i ! j"
  proof (rule perturb_loop_invariant [OF run])
    show "length (rows st) = length (rows st) \<and> rows st ! i ! j = rows st ! i ! j" by simp
  next
    fix gene s s'
    assume gene: "gene \<in> set target_genes"
      and inv: "length (rows s) = length (rows st) \<and> rows s ! i ! j = rows st ! i ! j"
      and step: "perturb_gene smp tp v v t ncols gene_names knock_type fold_change noise_level gene s = Inr s'"
    have "length (rows s') = length (rows s)"
      using perturb_gene_len [OF v step] .
    moreover have "rows s' ! i ! j = rows s ! i ! j"
      using perturb_gene_row [OF v step, of i] i inv j gene by auto
    ultimately show "length (rows s') = length (rows st) \<and> rows s' ! i ! j = rows st ! i ! j"
      using inv by simp
  qed
  then show ?thesis by simp
qed

text \<open>
  When the dtype of the matrix is int64 or unsigned, the clip at 0 survives the
  assignment to the column: the loop keeps a matrix without negative entries so.
\<close>

lemma perturb_loop_nonneg:
  assumes v: "columns v gene_names = Some names"
    and run: "perturb_loop smp tp v v t ncols gene_names knock_type fold_change noise_level
             target_genes st = (err, st')"
    and wide: "\<not> signed t \<or> t = Int64"
    and nn: "\<forall>row\<in>set (rows st). \<forall>x\<in>set row. 0 \<le> x"
  shows "\<forall>row\<in>set (rows st'). \<forall>x\<in>set row. 0 \<le> x"
proof (rule perturb_loop_invariant [OF run _ _, where P = "\<lambda>s. \<forall>row\<in>set (rows s). \<forall>x\<in>set row. 0 \<le> x"])
  show "\<forall>row\<in>set (rows st). \<forall>x\<in>set row. 0 \<le> x" by (rule nn)
next
  fix gene s s'
  assume inv: "\<forall>row\<in>set (rows s). \<forall>x\<in>set row. 0 \<le> x"
    and step: "perturb_gene smp tp v v t ncols gene_names knock_type fold_change noise_level gene s = Inr s'"
  have len: "length (rows s') = length (rows s)"
    using perturb_gene_len [OF v step] .
  show "\<forall>row\<in>set (rows s'). \<forall>x\<in>set row. 0 \<le> x"
  proof (intro ballI)
    fix row x
    assume "row \<in> set (rows s')" and x: "x \<in> set row"
    then obtain i where i: "i < length (rows s)" and row: "row = rows s' ! i"
      using len by (metis in_set_conv_nth)
    have old: "\<forall>y\<in>set (rows s ! i). 0 \<le> y"
      using inv nth_mem [OF i] by blast
    from perturb_gene_row [OF v step i]
    show "0 \<le> x"
    proof
      assume "rows s' ! i = rows s ! i"
      with old x row show ?thesis by simp
    next
      assume "\<exists>idx y. list_index names gene = Some idx \<and> 0 \<le> y \<and> y < 2 ^ 63
                 \<and> rows s' ! i = (rows s ! i)[idx := cast_int t y]"
      then obtain idx y where y: "0 \<le> y" "y < 2 ^ 63"
        and upd: "rows s' ! i = (rows s ! i)[idx := cast_int t y]"
        by blast
      have "x \<in> insert (cast_int t y) (set (rows s ! i))"
        using x row upd set_update_subset_insert [of "rows s ! i" idx "cast_int t y"] by auto
      with old cast_int_nonneg_wide [OF wide y] show ?thesis by auto
    qed
  qed
qed

subsection \<open>The whole call\<close>

lemma perturb_genes_counts_int:
  assumes al: "allocated w adata"
    and arr: "arrays w (X adata) = IntArray t r c d"
    and run: "perturb_loop (sampler w) (tape w) (frames w (var adata)) (frames w (var adata)) t c gene_names
               knock_type fold_change noise_level target_genes
               \<lparr>rows = d, printed = stdout w, pos = rng_pos w\<rparr> = (err, st)"
  shows "perturb_genes_counts w adata gene_names target_genes knock_type fold_change noise_level =
     ((case err of Some e \<Rightarrow> Inl e
       | None \<Rightarrow> Inr \<lparr>X = next_addr w, obs = next_addr w + 1, var = next_addr w + 2\<rparr>),
      w\<lparr>arrays := (arrays w)(next_addr w := IntArray t r c (rows st)),
        frames := (frames w)(next_addr w + 1 := frames w (obs adata),
                             next_addr w + 2 := frames w (var adata)),
        next_addr := next_addr w + 3,
        stdout := printed st,
        rng_pos := pos st\<rparr>)"
  using al arr run
  by (cases err) (simp_all add: perturb_genes_counts_def AnnData_copy_def allocated_def Let_def)

lemma perturb_genes_counts_float:
  assumes arr: "arrays w (X adata) = FloatArray r c d"
  shows "perturb_genes_counts w adata gene_names target_genes knock_type fold_change noise_level =
     (Inl InvalidInputError,
      w\<lparr>arrays := (arrays w)(next_addr w := FloatArray r c d),
        frames := (frames w)(next_addr w + 1 := frames w (obs adata),
                             next_addr w + 2 := frames w (var adata)),
        next_addr := next_addr w + 3\<rparr>)"
  using arr
  by (simp add: perturb_genes_counts_def AnnData_copy_def Let_def)

lemma labeled_int_matrix_parts:
  assumes "labeled_int_matrix w adata gene_names t d names"
  shows "allocated w adata"
    and "arrays w (X adata) = IntArray t (length d) (length names) d"
    and "columns (frames w (var adata)) gene_names = Some names"
    and "\<And>row. row \<in> set d \<Longrightarrow> length row = length names"
  using assms by (auto simp: labeled_int_matrix_def rectangular_def list_all_iff)

lemma perturb_genes_counts_success:
  assumes lm: "labeled_int_matrix w adata gene_names t d names"
    and call: "perturb_genes_counts w adata gene_names target_genes knock_type fold_change
                 noise_level = (Inr out, w')"
  obtains st where
    "perturb_loop (sampler w) (tape w) (frames w (var adata)) (frames w (var adata)) t
       (length names)
       gene_names knock_type fold_change noise_level target_genes
       \<lparr>rows = d, printed = stdout w, pos = rng_pos w\<rparr> = (None, st)"
    "arrays w' (X out) = IntArray t (length d) (length names) (rows st)"
    "stdout w' = printed st" "rng_pos w' = pos st"
proof -
  note al = labeled_int_matrix_parts(1) [OF lm]
  note arr = labeled_int_matrix_parts(2) [OF lm]
  obtain err st where run:
    "perturb_loop (sampler w) (tape w) (frames w (var adata)) (frames w (var adata)) t
       (length names)
       gene_names knock_type fold_change noise_level target_genes
       \<lparr>rows = d, printed = stdout w, pos = rng_pos w\<rparr> = (err, st)"
    by (cases "perturb_loop (sampler w) (tape w) (frames w (var adata)) (frames w (var adata)) t
       (length names)
       gene_names knock_type fold_change noise_level target_genes
       \<lparr>rows = d, printed = stdout w, pos = rng_pos w\<rparr>")
  from call have none: "err = None"
    by (cases err) (simp_all add: perturb_genes_counts_int [OF al arr run])
  show thesis
  proof (rule that)
    show "perturb_loop (sampler w) (tape w) (frames w (var adata)) (frames w (var adata)) t
       (length names)
       gene_names knock_type fold_change noise_level target_genes
       \<lparr>rows = d, printed = stdout w, pos = rng_pos w\<rparr> = (None, st)"
      using run none by simp
    show "arrays w' (X out) = IntArray t (length d) (length names) (rows st)"
      using call none by (auto simp: perturb_genes_counts_int [OF al arr run])
    show "stdout w' = printed st"
      using call none by (auto simp: perturb_genes_counts_int [OF al arr run])
    show "rng_pos w' = pos st"
      using call none by (auto simp: perturb_genes_counts_int [OF al arr run])
  qed
qed

lemma labeled_int_matrix_demo:
  "labeled_int_matrix demo_world demo_adata ''gene_names'' Int64 [[10, 20], [30, 40]] [''GENE0'', ''GENE1'']"
  by (simp add: labeled_int_matrix_def allocated_def rectangular_def demo_world_def demo_adata_def)

lemma demo_run:
  "perturb_genes_counts demo_world demo_adata ''gene_names'' [''GENE1'', ''GENE9''] ''knock-up''
     (Finite (1/2)) (Finite (1/8))
   = (Inr \<lparr>X = 3, obs = 4, var = 5\<rparr>,
      demo_world\<lparr>arrays := (arrays demo_world)(3 := IntArray Int64 2 2 [[10, 36], [30, 70]]),
                 frames := (frames demo_world)(4 := frames demo_world 1, 5 := frames demo_world 2),
                 next_addr := 6,
                 stdout := [''Gene GENE9 not found in the dataset!''],
                 rng_pos := 2\<rparr>)"
  by (simp add: perturb_genes_counts_def AnnData_copy_def perturb_gene_def scale_counts_def
      poisson_def poisson_draw_def not_found_def cast_int_def fsub_def lam_max_def
      binary64_exact demo_world_def demo_adata_def Let_def)

text \<open>The same object with the Python literal \<^verbatim>\<open>0.8\<close> and no noise, a run in which binary64 shows.\<close>

lemma demo_run_four_fifths:
  "perturb_genes_counts demo_world demo_adata ''gene_names'' [''GENE0''] ''knock-down''
     (round64 (4 / 5)) (Finite 0)
   = (Inr \<lparr>X = 3, obs = 4, var = 5\<rparr>,
      demo_world\<lparr>arrays := (arrays demo_world)(3 := IntArray Int64 2 2 [[1, 20], [5, 40]]),
                 frames := (frames demo_world)(4 := frames demo_world 1, 5 := frames demo_world 2),
                 next_addr := 6,
                 stdout := [],
                 rng_pos := 2\<rparr>)"
proof -
  have sc: "scale_counts ''knock-down'' (round64 (4 / 5)) [10, 30] = Inr [1, 5]"
    by (simp add: scale_counts_def scaled_four_fifths)
  show ?thesis
    by (simp add: perturb_genes_counts_def AnnData_copy_def perturb_gene_def sc poisson_def
        poisson_draw_def cast_int_def lam_max_def binary64_exact demo_world_def demo_adata_def
        Let_def)
qed
subsection \<open>Rejection of a matrix that is not integral\<close>

text \<open>
  Claim C4. When the dtype of the matrix is not an integer dtype, the call raises
  \<^verbatim>\<open>ValueError("Count matrix must contain integer values.")\<close> for every kind and every list
  of target genes; no matrix is returned, the array of the caller is what it was, nothing
  has been printed and no random draw has been made.
\<close>

theorem non_integer_matrix_rejected:
  assumes "\<not> issubdtype_integer (arrays w (X adata))"
  shows "\<exists>w'. perturb_genes_counts w adata gene_names target_genes knock_type fold_change
                 noise_level = (Inl InvalidInputError, w')
           \<and> arrays w' (X adata) = arrays w (X adata)
           \<and> stdout w' = stdout w \<and> rng_pos w' = rng_pos w"
proof (cases "arrays w (X adata)")
  case (IntArray t r c d)
  with assms show ?thesis by simp
next
  case (FloatArray r c d)
  show ?thesis
    by (simp add: perturb_genes_counts_float [OF FloatArray] FloatArray)
qed

theorem non_integer_matrix_rejected_witness:
  "\<not> issubdtype_integer (arrays (setitem demo_world 0 (FloatArray 1 2 [[1/2, 3]])) (X demo_adata))
   \<and> (\<exists>w'. perturb_genes_counts (setitem demo_world 0 (FloatArray 1 2 [[1/2, 3]])) demo_adata
               ''gene_names'' [''GENE0''] ''knock-up'' (Finite (1/2)) (Finite (1/8)) = (Inl InvalidInputError, w')
           \<and> arrays w' (X demo_adata)
                = arrays (setitem demo_world 0 (FloatArray 1 2 [[1/2, 3]])) (X demo_adata)
           \<and> stdout w' = stdout (setitem demo_world 0 (FloatArray 1 2 [[1/2, 3]]))
           \<and> rng_pos w' = rng_pos (setitem demo_world 0 (FloatArray 1 2 [[1/2, 3]])))"
proof -
  have a: "\<not> issubdtype_integer
               (arrays (setitem demo_world 0 (FloatArray 1 2 [[1/2, 3]])) (X demo_adata))"
    by (simp add: setitem_def demo_adata_def)
  show ?thesis
    using a non_integer_matrix_rejected [OF a, of "''gene_names''" "[''GENE0'']" "''knock-up''" "Finite (1/2)" "Finite (1/8)"]
    by blast
qed

subsection \<open>Target names that are not in the gene index\<close>

text \<open>
  Claim C5. An iteration whose gene name is not in the gene index prints one line that
  names the gene, changes neither the matrix nor the random source, raises nothing and
  hands over to the rest of the loop. In particular a call in which no target name is in
  the index returns normally, its matrix equals the input matrix, and it has printed
  one such line for each target name, in order.
\<close>

theorem missing_gene_reported_and_skipped:
  assumes "labeled_int_matrix w adata gene_names t d names"
    and "gene \<notin> set names"
    and "set target_genes \<inter> set names = {}"
  shows "perturb_loop (sampler w) (tape w) (frames w (var adata)) (frames w (var adata)) t
       (length names)
           gene_names knock_type fold_change noise_level (gene # rest) st
         = perturb_loop (sampler w) (tape w) (frames w (var adata)) (frames w (var adata)) t
       (length names)
             gene_names knock_type fold_change noise_level rest
             (st\<lparr>printed := printed st @ [''Gene '' @ gene @ '' not found in the dataset!'']\<rparr>)
         \<and> (\<exists>out w'. perturb_genes_counts w adata gene_names target_genes knock_type fold_change
                         noise_level = (Inr out, w')
               \<and> arrays w' (X out) = arrays w (X adata)
               \<and> stdout w' = stdout w
                    @ map (\<lambda>g. ''Gene '' @ g @ '' not found in the dataset!'') target_genes)"
proof -
  from assms(1) have al: "allocated w adata"
    and arr: "arrays w (X adata) = IntArray t (length d) (length names) d"
    and v: "columns (frames w (var adata)) gene_names = Some names"
    by (simp_all add: labeled_int_matrix_def)
  from assms(3) have absent: "\<forall>g\<in>set target_genes. g \<notin> set names"
    by blast
  have nf: "not_found = (\<lambda>g. ''Gene '' @ g @ '' not found in the dataset!'')"
    by (rule ext) (simp add: not_found_def)
  have step: "perturb_loop (sampler w) (tape w) (frames w (var adata)) (frames w (var adata)) t
       (length names)
           gene_names knock_type fold_change noise_level (gene # rest) st
         = perturb_loop (sampler w) (tape w) (frames w (var adata)) (frames w (var adata)) t
       (length names)
             gene_names knock_type fold_change noise_level rest
             (st\<lparr>printed := printed st @ [''Gene '' @ gene @ '' not found in the dataset!'']\<rparr>)"
    by (simp add: perturb_gene_absent [OF v assms(2)] not_found_def)
  have call: "\<exists>out w'. perturb_genes_counts w adata gene_names target_genes knock_type fold_change
                         noise_level = (Inr out, w')
               \<and> arrays w' (X out) = arrays w (X adata)
               \<and> stdout w' = stdout w
                    @ map (\<lambda>g. ''Gene '' @ g @ '' not found in the dataset!'') target_genes"
    by (simp add: perturb_genes_counts_int [OF al arr perturb_loop_all_absent [OF v absent]] arr nf)
  from step call show ?thesis by (rule conjI)
qed

theorem missing_gene_reported_and_skipped_witness:
  "labeled_int_matrix demo_world demo_adata ''gene_names'' Int64 [[10, 20], [30, 40]] [''GENE0'', ''GENE1'']
   \<and> ''GENE999'' \<notin> set [''GENE0'', ''GENE1'']
   \<and> set [''GENE999''] \<inter> set [''GENE0'', ''GENE1''] = {}
   \<and> perturb_loop (sampler demo_world) (tape demo_world) (frames demo_world (var demo_adata))
        (frames demo_world (var demo_adata)) Int64 (length [''GENE0'', ''GENE1''])
        ''gene_names'' ''knock-up'' (Finite (1/2)) (Finite (1/8)) [''GENE999'', ''GENE1'']
        \<lparr>rows = [[10, 20], [30, 40]], printed = [], pos = 0\<rparr>
      = perturb_loop (sampler demo_world) (tape demo_world) (frames demo_world (var demo_adata))
        (frames demo_world (var demo_adata)) Int64 (length [''GENE0'', ''GENE1''])
          ''gene_names'' ''knock-up'' (Finite (1/2)) (Finite (1/8)) [''GENE1'']
          \<lparr>rows = [[10, 20], [30, 40]], printed = [''Gene GENE999 not found in the dataset!''],
           pos = 0\<rparr>
   \<and> (\<exists>out w'. perturb_genes_counts demo_world demo_adata ''gene_names'' [''GENE999'']
                   ''knock-up'' (Finite (1/2)) (Finite (1/8)) = (Inr out, w')
         \<and> arrays w' (X out) = IntArray Int64 2 2 [[10, 20], [30, 40]]
         \<and> stdout w' = [''Gene GENE999 not found in the dataset!''])"
proof -
  have a: "labeled_int_matrix demo_world demo_adata ''gene_names'' Int64 [[10, 20], [30, 40]]
             [''GENE0'', ''GENE1'']"
    by (rule labeled_int_matrix_demo)
  have b: "''GENE999'' \<notin> set [''GENE0'', ''GENE1'']"
    by simp
  have c: "set [''GENE999''] \<inter> set [''GENE0'', ''GENE1''] = {}"
    by simp
  have d: "arrays demo_world (X demo_adata) = IntArray Int64 2 2 [[10, 20], [30, 40]]"
    and e: "stdout demo_world = []"
    by (simp_all add: demo_world_def demo_adata_def)
  show ?thesis
    using a b c
      missing_gene_reported_and_skipped [OF a b c, of "''knock-up''" "Finite (1/2)" "Finite (1/8)" "[''GENE1'']"
        "\<lparr>rows = [[10, 20], [30, 40]], printed = [], pos = 0\<rparr>"]
    by (simp add: d e)
qed

text \<open>
  Claim C9. When the matrix has an integer dtype and no name of \<^verbatim>\<open>target_genes\<close> is in
  the gene index (the empty list included), the call returns normally for every value
  of \<^verbatim>\<open>knock_type\<close>, also one that is neither \<^verbatim>\<open>"knock-down"\<close> nor \<^verbatim>\<open>"knock-up"\<close>,
  and the returned matrix and gene index equal those of the input: the test of
  \<^verbatim>\<open>knock_type\<close> sits behind the test that the gene is in the index.
\<close>

theorem unresolved_targets_return_input_for_any_kind:
  assumes "labeled_int_matrix w adata gene_names t d names"
    and "set target_genes \<inter> set names = {}"
  shows "\<exists>out w'. perturb_genes_counts w adata gene_names target_genes knock_type fold_change
                     noise_level = (Inr out, w')
           \<and> arrays w' (X out) = arrays w (X adata)
           \<and> frames w' (var out) = frames w (var adata)"
proof -
  from assms(1) have al: "allocated w adata"
    and arr: "arrays w (X adata) = IntArray t (length d) (length names) d"
    and v: "columns (frames w (var adata)) gene_names = Some names"
    by (simp_all add: labeled_int_matrix_def)
  from assms(2) have absent: "\<forall>g\<in>set target_genes. g \<notin> set names"
    by blast
  show ?thesis
    by (simp add: perturb_genes_counts_int [OF al arr perturb_loop_all_absent [OF v absent]] arr)
qed

theorem unresolved_targets_return_input_for_any_kind_witness:
  "labeled_int_matrix demo_world demo_adata ''gene_names'' Int64 [[10, 20], [30, 40]] [''GENE0'', ''GENE1'']
   \<and> set [''GENE999''] \<inter> set [''GENE0'', ''GENE1''] = {}
   \<and> (\<exists>out w'. perturb_genes_counts demo_world demo_adata ''gene_names'' [''GENE999'']
                   ''scramble'' (Finite (1/2)) (Finite (1/8)) = (Inr out, w')
           \<and> arrays w' (X out) = arrays demo_world (X demo_adata)
           \<and> frames w' (var out) = frames demo_world (var demo_adata))"
proof -
  have a: "labeled_int_matrix demo_world demo_adata ''gene_names'' Int64 [[10, 20], [30, 40]]
             [''GENE0'', ''GENE1'']"
    by (rule labeled_int_matrix_demo)
  have b: "set [''GENE999''] \<inter> set [''GENE0'', ''GENE1''] = {}"
    by simp
  show ?thesis
    using a b unresolved_targets_return_input_for_any_kind [OF a b, of "''scramble''" "Finite (1/2)" "Finite (1/8)"]
    by blast
qed

subsection \<open>The test of \<^verbatim>\<open>knock_type\<close>\<close>

lemma perturb_gene_bad_kind:
  assumes "columns v gene_names = Some names"
    and "gene \<in> set names"
    and "length names \<le> ncols"
    and "knock_type \<noteq> ''knock-down''"
    and "knock_type \<noteq> ''knock-up''"
  shows "perturb_gene smp tp v v t ncols gene_names knock_type fold_change noise_level gene st
           = Inl InvalidParameterError"
proof -
  obtain idx where idx: "list_index names gene = Some idx"
    using list_index_Some [OF assms(2)] by blast
  then have "idx < ncols"
    using list_index_bound [OF idx] assms(3) by simp
  with assms idx show ?thesis
    by (simp add: perturb_gene_def scale_counts_def)
qed

lemma perturb_loop_bad_kind:
  assumes "columns v gene_names = Some names"
    and "length names \<le> ncols"
    and "knock_type \<noteq> ''knock-down''"
    and "knock_type \<noteq> ''knock-up''"
    and "set target_genes \<inter> set names \<noteq> {}"
  shows "\<exists>st'. perturb_loop smp tp v v t ncols gene_names knock_type fold_change noise_level
                  target_genes st = (Some InvalidParameterError, st')"
  using assms(5)
proof (induction target_genes arbitrary: st)
  case Nil
  then show ?case by simp
next
  case (Cons gene rest)
  show ?case
  proof (cases "gene \<in> set names")
    case True
    then show ?thesis
      by (simp add: perturb_gene_bad_kind [OF assms(1) True assms(2,3,4)])
  next
    case False
    with Cons.prems have "set rest \<inter> set names \<noteq> {}" by auto
    from Cons.IH [OF this] show ?thesis
      by (simp add: perturb_gene_absent [OF assms(1) False])
  qed
qed

text \<open>
  Claim C1, as the code has it. The claim as stated fails when no name of
  \<^verbatim>\<open>target_genes\<close> is in the gene index: the loop never reaches the test of
  \<^verbatim>\<open>knock_type\<close> and the call returns normally.
\<close>

theorem unknown_kind_accepted_counterexample:
  "issubdtype_integer (arrays demo_world (X demo_adata))
   \<and> ''scramble'' \<noteq> ''knock-down'' \<and> ''scramble'' \<noteq> ''knock-up''
   \<and> fst (perturb_genes_counts demo_world demo_adata ''gene_names'' [''GENE999'']
             ''scramble'' (Finite (1/2)) (Finite (1/8))) = Inr \<lparr>X = 3, obs = 4, var = 5\<rparr>
   \<and> fst (perturb_genes_counts demo_world demo_adata ''gene_names'' [''GENE999'']
             ''scramble'' (Finite (1/2)) (Finite (1/8))) \<noteq> Inl InvalidParameterError"
  by (simp add: perturb_genes_counts_def AnnData_copy_def perturb_gene_def
      demo_world_def demo_adata_def Let_def)

text \<open>
  Claim C1, amended. For a labeled integer matrix and a \<^verbatim>\<open>knock_type\<close> that is neither
  \<^verbatim>\<open>"knock-down"\<close> nor \<^verbatim>\<open>"knock-up"\<close>, the call raises
  \<^verbatim>\<open>ValueError("knock_type must be 'knock-up' or 'knock-down'")\<close> whenever at least one
  name of \<^verbatim>\<open>target_genes\<close> is in the gene index; names that are not in the index may
  stand before it in the list. The array of the caller is unchanged.
\<close>

theorem unknown_kind_rejected_when_a_target_resolves:
  assumes "labeled_int_matrix w adata gene_names t d names"
    and "knock_type \<noteq> ''knock-down''"
    and "knock_type \<noteq> ''knock-up''"
    and "set target_genes \<inter> set names \<noteq> {}"
  shows "\<exists>w'. perturb_genes_counts w adata gene_names target_genes knock_type fold_change
                 noise_level = (Inl InvalidParameterError, w')
           \<and> arrays w' (X adata) = arrays w (X adata)"
proof -
  from assms(1) have al: "allocated w adata"
    and arr: "arrays w (X adata) = IntArray t (length d) (length names) d"
    and v: "columns (frames w (var adata)) gene_names = Some names"
    by (simp_all add: labeled_int_matrix_def)
  obtain st' where run:
    "perturb_loop (sampler w) (tape w) (frames w (var adata)) (frames w (var adata)) t
       (length names)
       gene_names knock_type fold_change noise_level target_genes
       \<lparr>rows = d, printed = stdout w, pos = rng_pos w\<rparr> = (Some InvalidParameterError, st')"
    using perturb_loop_bad_kind [OF v order_refl assms(2,3,4)] by blast
  from al have "X adata \<noteq> next_addr w"
    by (simp add: allocated_def)
  then show ?thesis
    by (simp add: perturb_genes_counts_int [OF al arr run])
qed

theorem unknown_kind_rejected_when_a_target_resolves_witness:
  "labeled_int_matrix demo_world demo_adata ''gene_names'' Int64 [[10, 20], [30, 40]] [''GENE0'', ''GENE1'']
   \<and> ''scramble'' \<noteq> ''knock-down'' \<and> ''scramble'' \<noteq> ''knock-up''
   \<and> set [''GENE999'', ''GENE0''] \<inter> set [''GENE0'', ''GENE1''] \<noteq> {}
   \<and> (\<exists>w'. perturb_genes_counts demo_world demo_adata ''gene_names'' [''GENE999'', ''GENE0'']
               ''scramble'' (Finite (1/2)) (Finite (1/8)) = (Inl InvalidParameterError, w')
         \<and> arrays w' (X demo_adata) = arrays demo_world (X demo_adata))"
proof -
  have a: "labeled_int_matrix demo_world demo_adata ''gene_names'' Int64 [[10, 20], [30, 40]]
             [''GENE0'', ''GENE1'']"
    by (rule labeled_int_matrix_demo)
  have b: "''scramble'' \<noteq> ''knock-down''" and c: "''scramble'' \<noteq> ''knock-up''"
    by simp_all
  have d: "set [''GENE999'', ''GENE0''] \<inter> set [''GENE0'', ''GENE1''] \<noteq> {}"
    by simp
  show ?thesis
    using a b c d unknown_kind_rejected_when_a_target_resolves [OF a b c d, of "Finite (1/2)" "Finite (1/8)"]
    by blast
qed

subsection \<open>Genes that are not targets\<close>

text \<open>
  Claim C2. After a call that returns, the vector of the returned matrix at the position
  of a gene whose name is not in \<^verbatim>\<open>target_genes\<close> equals, entry by entry, the vector
  of the input matrix at that position; the shape is the shape of the input.
\<close>

theorem non_target_genes_unchanged:
  assumes "labeled_int_matrix w adata gene_names t d names"
    and "perturb_genes_counts w adata gene_names target_genes knock_type fold_change
           noise_level = (Inr out, w')"
    and "j < length names"
    and "names ! j \<notin> set target_genes"
  shows "\<exists>d'. arrays w' (X out) = IntArray t (length d) (length names) d'
           \<and> rectangular (length d) (length names) d'
           \<and> map (\<lambda>row. row ! j) d' = map (\<lambda>row. row ! j) d"
proof -
  note v = labeled_int_matrix_parts(3) [OF assms(1)]
  from assms(1,2) obtain st where
    run: "perturb_loop (sampler w) (tape w) (frames w (var adata)) (frames w (var adata)) t
       (length names)
       gene_names knock_type fold_change noise_level target_genes
       \<lparr>rows = d, printed = stdout w, pos = rng_pos w\<rparr> = (None, st)"
    and out: "arrays w' (X out) = IntArray t (length d) (length names) (rows st)"
    by (rule perturb_genes_counts_success)
  have shape: "length (rows st) = length d"
    "\<And>i. i < length d \<Longrightarrow> length (rows st ! i) = length (d ! i)"
    using perturb_loop_shape [OF v run] by simp_all
  have rect: "rectangular (length d) (length names) (rows st)"
    unfolding rectangular_def list_all_iff
  proof (intro conjI ballI)
    show "length (rows st) = length d" by (rule shape(1))
  next
    fix row assume "row \<in> set (rows st)"
    then obtain i where i: "i < length d" and row: "row = rows st ! i"
      using shape(1) by (metis in_set_conv_nth)
    have "length (d ! i) = length names"
      using labeled_int_matrix_parts(4) [OF assms(1)] i by simp
    with shape(2) [OF i] row show "length row = length names" by simp
  qed
  have untouched: "\<forall>g\<in>set target_genes. list_index names g \<noteq> Some j"
  proof
    fix g assume g: "g \<in> set target_genes"
    show "list_index names g \<noteq> Some j"
    proof
      assume "list_index names g = Some j"
      then have "names ! j = g" using list_index_bound by blast
      with g assms(4) show False by simp
    qed
  qed
  have "map (\<lambda>row. row ! j) (rows st) = map (\<lambda>row. row ! j) d"
  proof (rule nth_equalityI)
    show "length (map (\<lambda>row. row ! j) (rows st)) = length (map (\<lambda>row. row ! j) d)"
      by (simp add: shape(1))
  next
    fix i assume "i < length (map (\<lambda>row. row ! j) (rows st))"
    then have i: "i < length d" by (simp add: shape(1))
    then show "map (\<lambda>row. row ! j) (rows st) ! i = map (\<lambda>row. row ! j) d ! i"
      using perturb_loop_frame [OF v run untouched, of i] shape(1) by simp
  qed
  with out rect show ?thesis by blast
qed

theorem non_target_genes_unchanged_witness:
  "labeled_int_matrix demo_world demo_adata ''gene_names'' Int64 [[10, 20], [30, 40]] [''GENE0'', ''GENE1'']
   \<and> fst (perturb_genes_counts demo_world demo_adata ''gene_names'' [''GENE1'', ''GENE9'']
            ''knock-up'' (Finite (1/2)) (Finite (1/8))) = Inr \<lparr>X = 3, obs = 4, var = 5\<rparr>
   \<and> (0::nat) < length [''GENE0'', ''GENE1'']
   \<and> [''GENE0'', ''GENE1''] ! 0 \<notin> set [''GENE1'', ''GENE9'']
   \<and> (\<exists>d'. arrays (snd (perturb_genes_counts demo_world demo_adata ''gene_names''
                           [''GENE1'', ''GENE9''] ''knock-up'' (Finite (1/2)) (Finite (1/8)))) 3
               = IntArray Int64 2 2 d'
             \<and> rectangular 2 2 d'
             \<and> map (\<lambda>row. row ! 0) d' = [10, 30])"
proof -
  have a: "labeled_int_matrix demo_world demo_adata ''gene_names'' Int64 [[10, 20], [30, 40]]
             [''GENE0'', ''GENE1'']"
    by (rule labeled_int_matrix_demo)
  have c: "perturb_genes_counts demo_world demo_adata ''gene_names'' [''GENE1'', ''GENE9'']
            ''knock-up'' (Finite (1/2)) (Finite (1/8))
           = (Inr \<lparr>X = 3, obs = 4, var = 5\<rparr>,
              snd (perturb_genes_counts demo_world demo_adata ''gene_names''
                     [''GENE1'', ''GENE9''] ''knock-up'' (Finite (1/2)) (Finite (1/8))))"
    by (simp add: demo_run)
  have j: "(0::nat) < length [''GENE0'', ''GENE1'']"
    by simp
  have t: "[''GENE0'', ''GENE1''] ! 0 \<notin> set [''GENE1'', ''GENE9'']"
    by simp
  have f: "fst (perturb_genes_counts demo_world demo_adata ''gene_names'' [''GENE1'', ''GENE9'']
            ''knock-up'' (Finite (1/2)) (Finite (1/8))) = Inr \<lparr>X = 3, obs = 4, var = 5\<rparr>"
    by (simp add: demo_run)
  show ?thesis
    using a f j t non_target_genes_unchanged [OF a c j t] by (simp add: numeral_2_eq_2)
qed

subsection \<open>The value written for a target gene\<close>



lemmas concrete_run =
  perturb_genes_counts_def AnnData_copy_def perturb_gene_def scale_counts_def
  poisson_def poisson_draw_def not_found_def cast_int_def fits_def fsub_def lam_max_def
  setitem_def demo_world_def demo_adata_def Let_def


subsection \<open>No negative entry\<close>

text \<open>
  What holds of the clip: when the dtype of the matrix is int64 or unsigned, a call that
  returns on a matrix without a negative entry returns a matrix without a negative
  entry.
\<close>

lemma wide_dtype_output_non_negative:
  assumes "labeled_int_matrix w adata gene_names t d names"
    and "\<not> signed t \<or> t = Int64"
    and "non_negative d"
    and "perturb_genes_counts w adata gene_names target_genes knock_type fold_change
           noise_level = (Inr out, w')"
  shows "\<exists>d'. arrays w' (X out) = IntArray t (length d) (length names) d' \<and> non_negative d'"
proof -
  from assms(1,4) obtain st where
    run: "perturb_loop (sampler w) (tape w) (frames w (var adata)) (frames w (var adata)) t
       (length names)
       gene_names knock_type fold_change noise_level target_genes
       \<lparr>rows = d, printed = stdout w, pos = rng_pos w\<rparr> = (None, st)"
    and out: "arrays w' (X out) = IntArray t (length d) (length names) (rows st)"
    by (rule perturb_genes_counts_success)
  have "\<forall>row\<in>set (rows st). \<forall>x\<in>set row. 0 \<le> x"
    using perturb_loop_nonneg [OF labeled_int_matrix_parts(3) [OF assms(1)] run assms(2)] assms(3)
    by (simp add: non_negative_def list_all_iff)
  then have "non_negative (rows st)"
    by (simp add: non_negative_def list_all_iff)
  with out show ?thesis by blast
qed

text \<open>
  Claim C6 says that a matrix without a negative entry comes back without a negative
  entry. The code clips the int64 vector at 0 (\<^verbatim>\<open># Clip to ensure no negative values\<close>)
  and then assigns it to the column of \<^verbatim>\<open>X\<close>, which casts it into the dtype of \<^verbatim>\<open>X\<close>: on
  the int8 matrix \<open>[[100, 20], [30, 40]]\<close> with target \<^verbatim>\<open>GENE0\<close>, \<^verbatim>\<open>knock-up\<close>,
  \<^verbatim>\<open>fold_change = 1.0\<close> and \<^verbatim>\<open>noise_level = 0.0\<close> the clipped value 200 is stored as
  \<open>- 56\<close>.
\<close>

theorem narrow_dtype_output_negative:
  "non_negative [[100, 20], [30, 40]]
   \<and> list_all (list_all (fits Int8)) [[100, 20], [30, 40]]
   \<and> fst (perturb_genes_counts (setitem demo_world 0 (IntArray Int8 2 2 [[100, 20], [30, 40]]))
            demo_adata ''gene_names'' [''GENE0''] ''knock-up'' (Finite 1) (Finite 0))
       = Inr \<lparr>X = 3, obs = 4, var = 5\<rparr>
   \<and> arrays (snd (perturb_genes_counts
                    (setitem demo_world 0 (IntArray Int8 2 2 [[100, 20], [30, 40]]))
                    demo_adata ''gene_names'' [''GENE0''] ''knock-up'' (Finite 1) (Finite 0))) 3
       = IntArray Int8 2 2 [[- 56, 20], [60, 40]]
   \<and> \<not> non_negative [[- 56, 20], [60, 40]]"
  by (simp add: concrete_run binary64_exact non_negative_def)

subsection \<open>Fold change 0 and noise level 0\<close>



lemma represented_exactly_small: "\<bar>c\<bar> \<le> 2 ^ 53 \<Longrightarrow> represented_exactly c"
  by (auto simp: represented_exactly_def float_of_int_exact fits_def abs_le_iff)

lemma kept_exactly_small: "0 \<le> c \<Longrightarrow> c \<le> 2 ^ 53 \<Longrightarrow> fits t c \<Longrightarrow> kept_exactly t c"
  by (simp add: kept_exactly_def represented_exactly_small)







subsection \<open>No aliasing between the input and the result\<close>

text \<open>
  Claim C8. Whatever the outcome of a call (a result or an exception), the array and the
  data frames of the caller hold what they held before. The objects of a returned AnnData
  are stored at other addresses than those of the input, so that a later write to the
  returned array does not change the input array, and a later write to the input array
  does not change the returned one.
\<close>

theorem input_storage_independent:
  assumes "allocated w adata"
    and "perturb_genes_counts w adata gene_names target_genes knock_type fold_change
           noise_level = (res, w')"
  shows "arrays w' (X adata) = arrays w (X adata)
         \<and> frames w' (var adata) = frames w (var adata)
         \<and> frames w' (obs adata) = frames w (obs adata)
         \<and> (\<forall>out. res = Inr out \<longrightarrow>
               X out \<noteq> X adata \<and> var out \<noteq> var adata \<and> obs out \<noteq> obs adata
               \<and> (\<forall>arr. arrays (setitem w' (X out) arr) (X adata) = arrays w (X adata))
               \<and> (\<forall>arr. arrays (setitem w' (X adata) arr) (X out) = arrays w' (X out)))"
proof (cases "arrays w (X adata)")
  case (FloatArray r c d)
  from assms(1) have "obs adata \<noteq> next_addr w + 1" "obs adata \<noteq> next_addr w + 2"
    "var adata \<noteq> next_addr w + 1" "var adata \<noteq> next_addr w + 2"
    by (simp_all add: allocated_def)
  with assms(2) show ?thesis
    by (auto simp: perturb_genes_counts_float [OF FloatArray] FloatArray)
next
  case (IntArray t r c d)
  obtain err st where run:
    "perturb_loop (sampler w) (tape w) (frames w (var adata)) (frames w (var adata)) t c
       gene_names knock_type fold_change noise_level target_genes
       \<lparr>rows = d, printed = stdout w, pos = rng_pos w\<rparr> = (err, st)"
    by (cases "perturb_loop (sampler w) (tape w) (frames w (var adata)) (frames w (var adata)) t c
       gene_names knock_type fold_change noise_level target_genes
       \<lparr>rows = d, printed = stdout w, pos = rng_pos w\<rparr>")
  from assms(1) have "X adata \<noteq> next_addr w"
    "obs adata \<noteq> next_addr w + 1" "obs adata \<noteq> next_addr w + 2"
    "var adata \<noteq> next_addr w + 1" "var adata \<noteq> next_addr w + 2"
    by (simp_all add: allocated_def)
  with assms(2) show ?thesis
    by (cases err) (auto simp: perturb_genes_counts_int [OF assms(1) IntArray run] setitem_def)
qed

theorem input_storage_independent_witness:
  "allocated demo_world demo_adata
   \<and> fst (perturb_genes_counts demo_world demo_adata ''gene_names'' [''GENE1'', ''GENE9'']
            ''knock-up'' (Finite (1/2)) (Finite (1/8))) = Inr \<lparr>X = 3, obs = 4, var = 5\<rparr>
   \<and> arrays (snd (perturb_genes_counts demo_world demo_adata ''gene_names''
                    [''GENE1'', ''GENE9''] ''knock-up'' (Finite (1/2)) (Finite (1/8)))) (X demo_adata)
       = IntArray Int64 2 2 [[10, 20], [30, 40]]
   \<and> X \<lparr>X = 3, obs = 4, var = 5\<rparr> \<noteq> X demo_adata
   \<and> arrays (setitem (snd (perturb_genes_counts demo_world demo_adata ''gene_names''
                             [''GENE1'', ''GENE9''] ''knock-up'' (Finite (1/2)) (Finite (1/8))))
                3 (IntArray Int64 2 2 [[0, 0], [0, 0]])) (X demo_adata)
       = IntArray Int64 2 2 [[10, 20], [30, 40]]
   \<and> arrays (setitem (snd (perturb_genes_counts demo_world demo_adata ''gene_names''
                             [''GENE1'', ''GENE9''] ''knock-up'' (Finite (1/2)) (Finite (1/8))))
                (X demo_adata) (IntArray Int64 2 2 [[0, 0], [0, 0]])) 3
       = IntArray Int64 2 2 [[10, 36], [30, 70]]"
proof -
  have a: "allocated demo_world demo_adata"
    by (simp add: allocated_def demo_world_def demo_adata_def)
  have c: "perturb_genes_counts demo_world demo_adata ''gene_names'' [''GENE1'', ''GENE9'']
            ''knock-up'' (Finite (1/2)) (Finite (1/8))
           = (Inr \<lparr>X = 3, obs = 4, var = 5\<rparr>,
              snd (perturb_genes_counts demo_world demo_adata ''gene_names''
                     [''GENE1'', ''GENE9''] ''knock-up'' (Finite (1/2)) (Finite (1/8))))"
    by (simp add: demo_run)
  have d: "arrays demo_world (X demo_adata) = IntArray Int64 2 2 [[10, 20], [30, 40]]"
    by (simp add: demo_world_def demo_adata_def)
  have e: "arrays (snd (perturb_genes_counts demo_world demo_adata ''gene_names''
                    [''GENE1'', ''GENE9''] ''knock-up'' (Finite (1/2)) (Finite (1/8)))) 3
             = IntArray Int64 2 2 [[10, 36], [30, 70]]"
    by (simp add: demo_run)
  have f: "fst (perturb_genes_counts demo_world demo_adata ''gene_names'' [''GENE1'', ''GENE9'']
            ''knock-up'' (Finite (1/2)) (Finite (1/8))) = Inr \<lparr>X = 3, obs = 4, var = 5\<rparr>"
    by (simp add: demo_run)
  show ?thesis
    using a d e f input_storage_independent [OF a c] by simp
qed

subsection \<open>\<^verbatim>\<open>simulate_count_data\<close> and its parameter \<^verbatim>\<open>max_count\<close>\<close>

lemma simulate_count_data_entries:
  assumes "simulate_count_data w n_gene n_samples max_count = (Inr adata, w')"
  shows "\<exists>d. arrays w' (X adata) = IntArray Int64 (nat n_gene) (nat n_samples) d
           \<and> (\<forall>row\<in>set d. \<forall>x\<in>set row. 0 \<le> x \<and> x < 512)"
  using assms
  by (auto simp: simulate_count_data_def randint_def AnnData_init_def Let_def
      split: if_splits)

text \<open>
  Claim C10 says that every entry lies in \<open>[0, max_count)\<close>. The function draws from
  \<open>[0, 512)\<close> whatever \<^verbatim>\<open>max_count\<close> is: with \<^verbatim>\<open>max_count = 10\<close> and a raw draw of 300 the
  matrix holds the entry 300.
\<close>

theorem simulate_count_data_ignores_max_count:
  "fst (simulate_count_data (demo_world\<lparr>tape := (\<lambda>k. 300)\<rparr>) 1 1 10)
     = Inr \<lparr>X = 3, obs = 4, var = 5\<rparr>
   \<and> arrays (snd (simulate_count_data (demo_world\<lparr>tape := (\<lambda>k. 300)\<rparr>) 1 1 10)) 3
       = IntArray Int64 1 1 [[300]]
   \<and> \<not> (300 < (10::int))"
  by (simp add: simulate_count_data_def randint_def AnnData_init_def n_obs_def n_vars_def
      shape_def demo_world_def Let_def)


end
